theory Spec2Isabelle
  imports Main "HOL-Library.Word"
begin

section \<open>JavaScript values, JSON documents and SQLite cells\<close>

text \<open>
  TaskFlow is an Express server over SQLite. Two variants of the server are in the
  repository: \<^verbatim>\<open>server.js\<close> (users, sessions, ownership checks) and an older
  server without authentication (projects and tasks only, with import).

  Request bodies are JSON. A body field that reaches an SQL parameter is a JSON scalar
  (null, a boolean, an integer or a string); \<open>None\<close> stands for JavaScript's
  \<^verbatim>\<open>undefined\<close> (the field is absent). Numbers are integers: floating point is
  outside the model, and so are arrays and objects in the place of a column value.
\<close>

datatype scalar = JNull | JBool bool | JNum int | JStr string

type_synonym jsobject = "(string \<times> scalar) list"

datatype element = EScalar scalar | EObject jsobject

datatype jsfield = FScalar scalar | FObject jsobject | FArray "element list"

type_synonym document = "(string \<times> jsfield) list"

text \<open>Property access \<^verbatim>\<open>obj.k\<close> on a parsed JSON object. An object is the list of its
  properties; a parsed object has each name once.\<close>

definition get_prop :: "jsobject \<Rightarrow> string \<Rightarrow> scalar option" where
  "get_prop obj k = map_of obj k"

text \<open>JavaScript truthiness, as used by \<^verbatim>\<open>!x\<close>, \<^verbatim>\<open>x ? a : b\<close>, \<^verbatim>\<open>x || y\<close> and \<^verbatim>\<open>if (x)\<close>.\<close>

fun truthy :: "scalar option \<Rightarrow> bool" where
  "truthy None = False"
| "truthy (Some JNull) = False"
| "truthy (Some (JBool b)) = b"
| "truthy (Some (JNum n)) = (n \<noteq> 0)"
| "truthy (Some (JStr s)) = (s \<noteq> [])"

text \<open>Decimal rendering of a number, as in \<^verbatim>\<open>'u' + Date.now()\<close>.\<close>

definition digit_char :: "nat \<Rightarrow> char" where
  "digit_char d = ''0123456789'' ! (d mod 10)"

function string_of_nat :: "nat \<Rightarrow> string" where
  "string_of_nat n =
     (if n < 10 then [digit_char n] else string_of_nat (n div 10) @ [digit_char (n mod 10)])"
  by pat_completeness auto
termination
  by (relation "measure id") auto

declare string_of_nat.simps [simp del]

definition string_of_int :: "int \<Rightarrow> string" where
  "string_of_int i = (if i < 0 then CHR ''-'' # string_of_nat (nat (- i)) else string_of_nat (nat i))"

text \<open>
  A cell of an SQLite table. The driver binds \<^verbatim>\<open>undefined\<close> and \<^verbatim>\<open>null\<close> as NULL,
  a boolean as the integer 1 or 0, an integer as an integer and a string as text.
\<close>

datatype sqlval = SNull | SInt int | SText string

fun bind_param :: "scalar option \<Rightarrow> sqlval" where
  "bind_param None = SNull"
| "bind_param (Some JNull) = SNull"
| "bind_param (Some (JBool b)) = SInt (if b then 1 else 0)"
| "bind_param (Some (JNum n)) = SInt n"
| "bind_param (Some (JStr s)) = SText s"

text \<open>
  A column declared TEXT has text affinity: an integer stored in it, or compared with it,
  is converted to its decimal text. A TEXT cell is therefore \<open>None\<close> (NULL) or a string.
  The columns \<^verbatim>\<open>deadline DATE\<close> and \<^verbatim>\<open>completed INTEGER\<close> keep the bound value
  (the conversion of text that is a well-formed number is not modelled).
\<close>

fun text_affinity :: "sqlval \<Rightarrow> string option" where
  "text_affinity SNull = None"
| "text_affinity (SInt n) = Some (string_of_int n)"
| "text_affinity (SText s) = Some s"

definition bind_text :: "scalar option \<Rightarrow> string option" where
  "bind_text v = text_affinity (bind_param v)"

text \<open>The JavaScript value a SELECT gives back for a cell.\<close>

fun js_of_sql :: "sqlval \<Rightarrow> scalar" where
  "js_of_sql SNull = JNull"
| "js_of_sql (SInt n) = JNum n"
| "js_of_sql (SText s) = JStr s"

fun js_of_text :: "string option \<Rightarrow> scalar" where
  "js_of_text None = JNull"
| "js_of_text (Some s) = JStr s"

text \<open>
  \<^verbatim>\<open>s.replace(pat, rep)\<close> with a string pattern: the first occurrence of \<open>pat\<close> in
  \<open>s\<close> is replaced, and \<open>s\<close> is returned as it is when there is none.
\<close>

fun starts_with :: "string \<Rightarrow> string \<Rightarrow> bool" where
  "starts_with [] s = True"
| "starts_with (p # ps) [] = False"
| "starts_with (p # ps) (c # cs) = (p = c \<and> starts_with ps cs)"

fun replace_first :: "string \<Rightarrow> string \<Rightarrow> string \<Rightarrow> string" where
  "replace_first pat rep [] = (if pat = [] then rep else [])"
| "replace_first pat rep (c # cs) =
     (if starts_with pat (c # cs) then rep @ drop (length pat) (c # cs)
      else c # replace_first pat rep cs)"

text \<open>\<^verbatim>\<open>s.includes(pat)\<close>.\<close>

fun str_includes :: "string \<Rightarrow> string \<Rightarrow> bool" where
  "str_includes [] pat = (pat = [])"
| "str_includes (c # cs) pat = (starts_with pat (c # cs) \<or> str_includes cs pat)"

text \<open>\<^verbatim>\<open>crypto.randomBytes(n).toString('hex')\<close>: two lower-case hex digits a byte.\<close>

definition hex_digit :: "nat \<Rightarrow> char" where
  "hex_digit d = ''0123456789abcdef'' ! (d mod 16)"

definition hex_of_byte :: "8 word \<Rightarrow> string" where
  "hex_of_byte b = [hex_digit (unat b div 16), hex_digit (unat b mod 16)]"

definition to_hex :: "8 word list \<Rightarrow> string" where
  "to_hex bs = concat (map hex_of_byte bs)"

section \<open>The store of \<^verbatim>\<open>server.js\<close>\<close>

text \<open>
  The three tables, each a list of rows in insertion (rowid) order. A column declared
  \<^verbatim>\<open>TEXT NOT NULL\<close> is a string, a nullable TEXT column a string option. The identifiers
  of users and projects are generated by the server and are strings; a task's identifier
  comes from the request and may be NULL (SQLite allows NULL in a \<^verbatim>\<open>TEXT PRIMARY KEY\<close>
  column, and NULLs are distinct from each other). Foreign keys are not enforced: the
  server never turns them on.
\<close>

record user =
  u_id :: string
  u_username :: string
  u_nickname :: string
  u_password :: string
  u_created_at :: string

record project =
  p_id :: string
  p_user_id :: string
  p_name :: string
  p_created_at :: string

record task =
  t_id :: "string option"
  t_user_id :: string
  t_project_id :: string
  t_name :: string
  t_description :: "string option"
  t_priority :: "string option"
  t_deadline :: sqlval
  t_completed :: sqlval
  t_created_at :: string

text \<open>The state of the server: the tables and the session registry (token to user id).\<close>

record state =
  users :: "user list"
  projects :: "project list"
  tasks :: "task list"
  sessions :: "string \<rightharpoonup> string"

definition init :: state where
  "init = \<lparr>users = [], projects = [], tasks = [], sessions = Map.empty\<rparr>"

text \<open>
  What a request takes from outside the program: the clock (\<^verbatim>\<open>Date.now()\<close>, and the text
  of SQLite's \<^verbatim>\<open>CURRENT_TIMESTAMP\<close>) and the bytes of \<^verbatim>\<open>crypto.randomBytes(32)\<close>.
\<close>

record env =
  now :: nat
  current_timestamp :: string
  random_bytes :: "8 word list"

text \<open>Exceptions: a constraint SQLite reports (the promise is rejected), or a TypeError.\<close>

datatype exn = UniqueConstraint string | NotNullConstraint string | TypeError string

fun message :: "exn \<Rightarrow> string" where
  "message (UniqueConstraint c) = ''SQLITE_CONSTRAINT: UNIQUE constraint failed: '' @ c"
| "message (NotNullConstraint c) = ''SQLITE_CONSTRAINT: NOT NULL constraint failed: '' @ c"
| "message (TypeError m) = m"

subsection \<open>SQL statements\<close>

text \<open>\<^verbatim>\<open>INSERT INTO users (id, username, nickname, password) VALUES (?, ?, ?, ?)\<close>\<close>

definition insert_user ::
  "string \<Rightarrow> scalar option \<Rightarrow> scalar option \<Rightarrow> scalar option \<Rightarrow> string \<Rightarrow> state \<Rightarrow> exn + state" where
  "insert_user uid username nickname password ts s =
     (case bind_text username of
        None \<Rightarrow> Inl (NotNullConstraint ''users.username'')
      | Some un \<Rightarrow>
     (case bind_text nickname of
        None \<Rightarrow> Inl (NotNullConstraint ''users.nickname'')
      | Some nn \<Rightarrow>
     (case bind_text password of
        None \<Rightarrow> Inl (NotNullConstraint ''users.password'')
      | Some pw \<Rightarrow>
        if list_ex (\<lambda>u. u_id u = uid) (users s) then Inl (UniqueConstraint ''users.id'')
        else if list_ex (\<lambda>u. u_username u = un) (users s)
        then Inl (UniqueConstraint ''users.username'')
        else Inr (s\<lparr>users := users s @
               [\<lparr>u_id = uid, u_username = un, u_nickname = nn, u_password = pw,
                 u_created_at = ts\<rparr>]\<rparr>))))"

text \<open>\<^verbatim>\<open>UPDATE users SET nickname = ? WHERE id = ?\<close> and the same for the password. The
  NOT NULL constraint is checked on the rows the statement updates.\<close>

definition update_nickname :: "scalar option \<Rightarrow> string option \<Rightarrow> state \<Rightarrow> exn + state" where
  "update_nickname nickname uid s =
     (case bind_text nickname of
        None \<Rightarrow> if list_ex (\<lambda>u. Some (u_id u) = uid) (users s)
                then Inl (NotNullConstraint ''users.nickname'') else Inr s
      | Some nn \<Rightarrow>
          Inr (s\<lparr>users := map (\<lambda>u. if Some (u_id u) = uid then u\<lparr>u_nickname := nn\<rparr> else u)
                             (users s)\<rparr>))"

definition update_password :: "scalar option \<Rightarrow> string option \<Rightarrow> state \<Rightarrow> exn + state" where
  "update_password password uid s =
     (case bind_text password of
        None \<Rightarrow> if list_ex (\<lambda>u. Some (u_id u) = uid) (users s)
                then Inl (NotNullConstraint ''users.password'') else Inr s
      | Some pw \<Rightarrow>
          Inr (s\<lparr>users := map (\<lambda>u. if Some (u_id u) = uid then u\<lparr>u_password := pw\<rparr> else u)
                             (users s)\<rparr>))"

text \<open>\<^verbatim>\<open>INSERT INTO projects (id, user_id, name) VALUES (?, ?, ?)\<close>\<close>

definition insert_project ::
  "string \<Rightarrow> string option \<Rightarrow> scalar option \<Rightarrow> string \<Rightarrow> state \<Rightarrow> exn + state" where
  "insert_project pid uid name ts s =
     (case uid of
        None \<Rightarrow> Inl (NotNullConstraint ''projects.user_id'')
      | Some u \<Rightarrow>
     (case bind_text name of
        None \<Rightarrow> Inl (NotNullConstraint ''projects.name'')
      | Some n \<Rightarrow>
        if list_ex (\<lambda>p. p_id p = pid) (projects s) then Inl (UniqueConstraint ''projects.id'')
        else Inr (s\<lparr>projects := projects s @
               [\<lparr>p_id = pid, p_user_id = u, p_name = n, p_created_at = ts\<rparr>]\<rparr>)))"

text \<open>\<^verbatim>\<open>SELECT * FROM projects WHERE id = ? AND user_id = ?\<close>, first row. A NULL parameter
  matches no row.\<close>

definition select_project :: "string option \<Rightarrow> string option \<Rightarrow> state \<Rightarrow> project option" where
  "select_project pid uid s =
     find (\<lambda>p. Some (p_id p) = pid \<and> Some (p_user_id p) = uid) (projects s)"

text \<open>\<^verbatim>\<open>DELETE FROM tasks WHERE project_id = ?\<close>, \<^verbatim>\<open>DELETE FROM projects WHERE id = ?\<close>\<close>

definition delete_tasks_of_project :: "string \<Rightarrow> state \<Rightarrow> state" where
  "delete_tasks_of_project pid s = s\<lparr>tasks := filter (\<lambda>t. t_project_id t \<noteq> pid) (tasks s)\<rparr>"

definition delete_project_row :: "string \<Rightarrow> state \<Rightarrow> state" where
  "delete_project_row pid s = s\<lparr>projects := filter (\<lambda>p. p_id p \<noteq> pid) (projects s)\<rparr>"

text \<open>\<^verbatim>\<open>UPDATE projects SET name = ? WHERE id = ?\<close>\<close>

definition update_project_name :: "scalar option \<Rightarrow> string \<Rightarrow> state \<Rightarrow> exn + state" where
  "update_project_name name pid s =
     (case bind_text name of
        None \<Rightarrow> if list_ex (\<lambda>p. p_id p = pid) (projects s)
                then Inl (NotNullConstraint ''projects.name'') else Inr s
      | Some n \<Rightarrow>
          Inr (s\<lparr>projects := map (\<lambda>p. if p_id p = pid then p\<lparr>p_name := n\<rparr> else p)
                                (projects s)\<rparr>))"

text \<open>\<^verbatim>\<open>INSERT INTO tasks (id, user_id, project_id, name, description, priority, deadline)
  VALUES (?, ?, ?, ?, ?, ?, ?)\<close>; \<^verbatim>\<open>completed\<close> takes its default 0.\<close>

definition insert_task ::
  "scalar option \<Rightarrow> string option \<Rightarrow> scalar option \<Rightarrow> scalar option \<Rightarrow> scalar option \<Rightarrow>
   scalar option \<Rightarrow> scalar option \<Rightarrow> string \<Rightarrow> state \<Rightarrow> exn + state" where
  "insert_task tid uid project_id name description priority deadline ts s =
     (case uid of
        None \<Rightarrow> Inl (NotNullConstraint ''tasks.user_id'')
      | Some u \<Rightarrow>
     (case bind_text project_id of
        None \<Rightarrow> Inl (NotNullConstraint ''tasks.project_id'')
      | Some pid \<Rightarrow>
     (case bind_text name of
        None \<Rightarrow> Inl (NotNullConstraint ''tasks.name'')
      | Some n \<Rightarrow>
        if bind_param deadline = SNull then Inl (NotNullConstraint ''tasks.deadline'')
        else if bind_text tid \<noteq> None \<and> list_ex (\<lambda>t. t_id t = bind_text tid) (tasks s)
        then Inl (UniqueConstraint ''tasks.id'')
        else Inr (s\<lparr>tasks := tasks s @
               [\<lparr>t_id = bind_text tid, t_user_id = u, t_project_id = pid, t_name = n,
                 t_description = bind_text description, t_priority = bind_text priority,
                 t_deadline = bind_param deadline, t_completed = SInt 0,
                 t_created_at = ts\<rparr>]\<rparr>))))"

text \<open>\<^verbatim>\<open>SELECT * FROM tasks WHERE id = ? AND user_id = ?\<close>, first row.\<close>

definition select_task :: "string \<Rightarrow> string option \<Rightarrow> state \<Rightarrow> task option" where
  "select_task tid uid s =
     find (\<lambda>t. t_id t = Some tid \<and> Some (t_user_id t) = uid) (tasks s)"

text \<open>\<^verbatim>\<open>UPDATE tasks SET name = ?, description = ?, priority = ?, deadline = ?, completed = ?,
  project_id = ? WHERE id = ?\<close>\<close>

definition update_task_row ::
  "scalar option \<Rightarrow> scalar option \<Rightarrow> scalar option \<Rightarrow> scalar option \<Rightarrow> int \<Rightarrow>
   scalar option \<Rightarrow> string \<Rightarrow> state \<Rightarrow> exn + state" where
  "update_task_row name description priority deadline completed project_id tid s =
     (if \<not> list_ex (\<lambda>t. t_id t = Some tid) (tasks s) then Inr s
      else
     (case bind_text project_id of
        None \<Rightarrow> Inl (NotNullConstraint ''tasks.project_id'')
      | Some pid \<Rightarrow>
     (case bind_text name of
        None \<Rightarrow> Inl (NotNullConstraint ''tasks.name'')
      | Some n \<Rightarrow>
        if bind_param deadline = SNull then Inl (NotNullConstraint ''tasks.deadline'')
        else Inr (s\<lparr>tasks := map (\<lambda>t. if t_id t = Some tid
               then t\<lparr>t_name := n, t_description := bind_text description,
                      t_priority := bind_text priority, t_deadline := bind_param deadline,
                      t_completed := SInt completed, t_project_id := pid\<rparr>
               else t) (tasks s)\<rparr>))))"

text \<open>\<^verbatim>\<open>UPDATE tasks SET completed = ? WHERE id = ?\<close>, \<^verbatim>\<open>DELETE FROM tasks WHERE id = ?\<close>\<close>

definition set_completed :: "int \<Rightarrow> string \<Rightarrow> state \<Rightarrow> state" where
  "set_completed c tid s =
     s\<lparr>tasks := map (\<lambda>t. if t_id t = Some tid then t\<lparr>t_completed := SInt c\<rparr> else t) (tasks s)\<rparr>"

definition delete_task_row :: "string \<Rightarrow> state \<Rightarrow> state" where
  "delete_task_row tid s = s\<lparr>tasks := filter (\<lambda>t. t_id t \<noteq> Some tid) (tasks s)\<rparr>"

subsection \<open>Row order and JSON rendering\<close>

text \<open>
  \<^verbatim>\<open>ORDER BY\<close>: text compares bytewise, NULL sorts before integers and integers before
  text. SQL leaves the order of equal keys open; the model keeps them in table order.
\<close>

fun str_le :: "string \<Rightarrow> string \<Rightarrow> bool" where
  "str_le [] s = True"
| "str_le (c # cs) [] = False"
| "str_le (c # cs) (d # ds) = ((of_char c :: nat) < of_char d \<or> (c = d \<and> str_le cs ds))"

fun sql_le :: "sqlval \<Rightarrow> sqlval \<Rightarrow> bool" where
  "sql_le SNull v = True"
| "sql_le (SInt a) (SInt b) = (a \<le> b)"
| "sql_le (SInt a) (SText b) = True"
| "sql_le (SText a) (SText b) = str_le a b"
| "sql_le v w = False"

fun insert_by :: "('a \<Rightarrow> 'a \<Rightarrow> bool) \<Rightarrow> 'a \<Rightarrow> 'a list \<Rightarrow> 'a list" where
  "insert_by le x [] = [x]"
| "insert_by le x (y # ys) = (if le x y then x # y # ys else y # insert_by le x ys)"

definition order_by :: "('a \<Rightarrow> 'a \<Rightarrow> bool) \<Rightarrow> 'a list \<Rightarrow> 'a list" where
  "order_by le xs = foldr (insert_by le) xs []"

text \<open>A row as the object \<^verbatim>\<open>SELECT *\<close> gives, and an object literal as
  \<^verbatim>\<open>JSON.stringify\<close> writes it (a property that is \<^verbatim>\<open>undefined\<close> is left out).\<close>

definition project_json :: "project \<Rightarrow> jsobject" where
  "project_json p =
     [(''id'', JStr (p_id p)), (''user_id'', JStr (p_user_id p)), (''name'', JStr (p_name p)),
      (''created_at'', JStr (p_created_at p))]"

definition task_json :: "task \<Rightarrow> jsobject" where
  "task_json t =
     [(''id'', js_of_text (t_id t)), (''user_id'', JStr (t_user_id t)),
      (''project_id'', JStr (t_project_id t)), (''name'', JStr (t_name t)),
      (''description'', js_of_text (t_description t)),
      (''priority'', js_of_text (t_priority t)), (''deadline'', js_of_sql (t_deadline t)),
      (''completed'', js_of_sql (t_completed t)), (''created_at'', JStr (t_created_at t))]"

definition json_object :: "(string \<times> scalar option) list \<Rightarrow> jsobject" where
  "json_object kvs = List.map_filter (\<lambda>(k, v). map_option (Pair k) v) kvs"

subsection \<open>Requests and responses\<close>

text \<open>A response is its status and its JSON body (\<open>NoBody\<close> when \<^verbatim>\<open>res.json\<close> is given
  \<^verbatim>\<open>undefined\<close>). Response headers are not modelled.\<close>

datatype resbody = NoBody | Value jsfield | Document document

record response =
  status :: nat
  rbody :: resbody

definition error_response :: "nat \<Rightarrow> string \<Rightarrow> response" where
  "error_response code msg = \<lparr>status = code, rbody = Value (FObject [(''error'', JStr msg)])\<rparr>"

definition json_response :: "resbody \<Rightarrow> response" where
  "json_response b = \<lparr>status = 200, rbody = b\<rparr>"

definition success_response :: response where
  "success_response = json_response (Value (FObject [(''success'', JBool True)]))"

text \<open>
  A request: the \<^verbatim>\<open>Authorization\<close> header, the route parameter \<^verbatim>\<open>:id\<close>, the query
  parameter \<^verbatim>\<open>project_id\<close>, the parsed body, and \<^verbatim>\<open>req.userId\<close>, which only the
  session middleware sets.
\<close>

record request =
  authorization :: "string option"
  param_id :: string
  query_project_id :: "string option"
  body :: jsobject
  userId :: "string option"

section \<open>The session middleware\<close>

text \<open>
  \<^verbatim>\<open>requireAuth(req, res, next)\<close>. The handler that follows it on a route is the
  continuation \<open>next\<close>; it gets the request with \<^verbatim>\<open>req.userId\<close> set, and the state.
\<close>

definition bearer_token :: "request \<Rightarrow> string option" where
  "bearer_token req = map_option (replace_first ''Bearer '' []) (authorization req)"

definition requireAuth ::
  "request \<Rightarrow> state \<Rightarrow> (request \<Rightarrow> state \<Rightarrow> response \<times> state) \<Rightarrow> response \<times> state" where
  "requireAuth req s next =
     (case bearer_token req of
        None \<Rightarrow> (error_response 401 ''Unauthorized'', s)
      | Some token \<Rightarrow>
          if token = [] \<or> sessions s token = None
          then (error_response 401 ''Unauthorized'', s)
          else next (req\<lparr>userId := sessions s token\<rparr>) s)"

section \<open>The handlers of \<^verbatim>\<open>server.js\<close>\<close>

text \<open>
  Each handler takes the request and the state and gives the response and the new state.
  An exception inside \<^verbatim>\<open>try\<close> ends the handler with status 500 and the state reached
  so far: no handler runs in a transaction.
\<close>

subsection \<open>Authentication routes\<close>

definition register :: "env \<Rightarrow> request \<Rightarrow> state \<Rightarrow> response \<times> state" where
  "register e req s =
     (let username = get_prop (body req) ''username'';
          nickname = get_prop (body req) ''nickname'';
          password = get_prop (body req) ''password''
      in if \<not> truthy username \<or> \<not> truthy nickname \<or> \<not> truthy password
         then (error_response 400 ''All fields required'', s)
         else
           let uid = ''u'' @ string_of_nat (now e) in
           (case insert_user uid username nickname password (current_timestamp e) s of
              Inr s' \<Rightarrow>
                (json_response (Value (FObject (json_object
                   [(''id'', Some (JStr uid)), (''username'', username),
                    (''nickname'', nickname)]))), s')
            | Inl err \<Rightarrow>
                if str_includes (message err) ''UNIQUE constraint''
                then (error_response 400 ''Username already exists'', s)
                else (error_response 500 (message err), s)))"

definition login :: "env \<Rightarrow> request \<Rightarrow> state \<Rightarrow> response \<times> state" where
  "login e req s =
     (let username = get_prop (body req) ''username'';
          password = get_prop (body req) ''password''
      in case find (\<lambda>u. Some (u_username u) = bind_text username) (users s) of
           None \<Rightarrow> (error_response 401 ''Invalid credentials'', s)
         | Some u \<Rightarrow>
             if Some (JStr (u_password u)) \<noteq> password
             then (error_response 401 ''Invalid credentials'', s)
             else
               let token = to_hex (random_bytes e) in
               (json_response (Document
                  [(''token'', FScalar (JStr token)),
                   (''user'', FObject [(''id'', JStr (u_id u)),
                      (''username'', JStr (u_username u)),
                      (''nickname'', JStr (u_nickname u))])]),
                s\<lparr>sessions := (sessions s)(token \<mapsto> u_id u)\<rparr>))"

definition logout :: "env \<Rightarrow> request \<Rightarrow> state \<Rightarrow> response \<times> state" where
  "logout e req s =
     (case bearer_token req of
        None \<Rightarrow> (success_response, s)
      | Some token \<Rightarrow> (success_response, s\<lparr>sessions := (sessions s)(token := None)\<rparr>))"

definition me :: "env \<Rightarrow> request \<Rightarrow> state \<Rightarrow> response \<times> state" where
  "me e req s =
     (case find (\<lambda>u. Some (u_id u) = userId req) (users s) of
        None \<Rightarrow> (json_response NoBody, s)
      | Some u \<Rightarrow>
          (json_response (Value (FObject [(''id'', JStr (u_id u)),
             (''username'', JStr (u_username u)), (''nickname'', JStr (u_nickname u))])), s))"

definition update_profile :: "env \<Rightarrow> request \<Rightarrow> state \<Rightarrow> response \<times> state" where
  "update_profile e req s =
     (let nickname = get_prop (body req) ''nickname'';
          password = get_prop (body req) ''password''
      in case (if truthy nickname then update_nickname nickname (userId req) s else Inr s) of
           Inl err \<Rightarrow> (error_response 500 (message err), s)
         | Inr s1 \<Rightarrow>
             (case (if truthy password then update_password password (userId req) s1
                    else Inr s1) of
                Inl err \<Rightarrow> (error_response 500 (message err), s1)
              | Inr s2 \<Rightarrow> (success_response, s2)))"

subsection \<open>Projects\<close>

definition list_projects :: "env \<Rightarrow> request \<Rightarrow> state \<Rightarrow> response \<times> state" where
  "list_projects e req s =
     (let rows = order_by (\<lambda>a b. str_le (p_created_at b) (p_created_at a))
                   (filter (\<lambda>p. Some (p_user_id p) = userId req) (projects s))
      in (json_response (Value (FArray (map (\<lambda>p. EObject (project_json p)) rows))), s))"

definition create_project :: "env \<Rightarrow> request \<Rightarrow> state \<Rightarrow> response \<times> state" where
  "create_project e req s =
     (let name = get_prop (body req) ''name'';
          pid = ''p'' @ string_of_nat (now e)
      in case insert_project pid (userId req) name (current_timestamp e) s of
           Inl err \<Rightarrow> (error_response 500 (message err), s)
         | Inr s' \<Rightarrow>
             (json_response (Value (FObject (json_object
                [(''id'', Some (JStr pid)), (''name'', name)]))), s'))"

definition delete_project :: "env \<Rightarrow> request \<Rightarrow> state \<Rightarrow> response \<times> state" where
  "delete_project e req s =
     (case select_project (Some (param_id req)) (userId req) s of
        None \<Rightarrow> (error_response 404 ''Project not found'', s)
      | Some project \<Rightarrow>
          (success_response,
           delete_project_row (param_id req) (delete_tasks_of_project (param_id req) s)))"

definition update_project :: "env \<Rightarrow> request \<Rightarrow> state \<Rightarrow> response \<times> state" where
  "update_project e req s =
     (let name = get_prop (body req) ''name'' in
      case select_project (Some (param_id req)) (userId req) s of
        None \<Rightarrow> (error_response 404 ''Project not found'', s)
      | Some project \<Rightarrow>
          (case update_project_name name (param_id req) s of
             Inl err \<Rightarrow> (error_response 500 (message err), s)
           | Inr s' \<Rightarrow>
               (json_response (Value (FObject (json_object
                  [(''id'', Some (JStr (param_id req))), (''name'', name)]))), s')))"

subsection \<open>Tasks\<close>

definition list_tasks :: "env \<Rightarrow> request \<Rightarrow> state \<Rightarrow> response \<times> state" where
  "list_tasks e req s =
     (let project_id = query_project_id req;
          rows =
            (if project_id \<noteq> None \<and> project_id \<noteq> Some []
             then filter (\<lambda>t. Some (t_user_id t) = userId req \<and> Some (t_project_id t) = project_id)
                    (tasks s)
             else filter (\<lambda>t. Some (t_user_id t) = userId req) (tasks s))
      in (json_response (Value (FArray (map (\<lambda>t. EObject (task_json t))
            (order_by (\<lambda>a b. sql_le (t_deadline a) (t_deadline b)) rows)))), s))"

definition create_task :: "env \<Rightarrow> request \<Rightarrow> state \<Rightarrow> response \<times> state" where
  "create_task e req s =
     (let tid = get_prop (body req) ''id'';
          project_id = get_prop (body req) ''project_id'';
          name = get_prop (body req) ''name'';
          description = get_prop (body req) ''description'';
          priority = get_prop (body req) ''priority'';
          deadline = get_prop (body req) ''deadline''
      in case select_project (bind_text project_id) (userId req) s of
           None \<Rightarrow> (error_response 400 ''Invalid project'', s)
         | Some project \<Rightarrow>
             (case insert_task tid (userId req) project_id name
                     (if truthy description then description else Some (JStr []))
                     priority deadline (current_timestamp e) s of
                Inl err \<Rightarrow> (error_response 500 (message err), s)
              | Inr s' \<Rightarrow>
                  (json_response (Value (FObject (json_object
                     [(''id'', tid), (''project_id'', project_id), (''name'', name),
                      (''description'', description), (''priority'', priority),
                      (''deadline'', deadline), (''completed'', Some (JNum 0))]))), s')))"

definition update_task :: "env \<Rightarrow> request \<Rightarrow> state \<Rightarrow> response \<times> state" where
  "update_task e req s =
     (let tid = param_id req;
          name = get_prop (body req) ''name'';
          description = get_prop (body req) ''description'';
          priority = get_prop (body req) ''priority'';
          deadline = get_prop (body req) ''deadline'';
          completed = get_prop (body req) ''completed'';
          project_id = get_prop (body req) ''project_id''
      in case select_task tid (userId req) s of
           None \<Rightarrow> (error_response 404 ''Task not found'', s)
         | Some task \<Rightarrow>
             (case update_task_row name description priority deadline
                     (if truthy completed then 1 else 0) project_id tid s of
                Inl err \<Rightarrow> (error_response 500 (message err), s)
              | Inr s' \<Rightarrow>
                  (json_response (Value (FObject (json_object
                     [(''id'', Some (JStr tid)), (''project_id'', project_id), (''name'', name),
                      (''description'', description), (''priority'', priority),
                      (''deadline'', deadline),
                      (''completed'', Some (JNum (if truthy completed then 1 else 0)))]))),
                   s')))"

definition toggle_task :: "env \<Rightarrow> request \<Rightarrow> state \<Rightarrow> response \<times> state" where
  "toggle_task e req s =
     (let tid = param_id req in
      case select_task tid (userId req) s of
        None \<Rightarrow> (error_response 404 ''Task not found'', s)
      | Some task \<Rightarrow>
          let newStatus = (if truthy (Some (js_of_sql (t_completed task))) then 0 else 1) in
          (json_response (Value (FObject
             [(''success'', JBool True), (''completed'', JNum newStatus)])),
           set_completed newStatus tid s))"

definition delete_task :: "env \<Rightarrow> request \<Rightarrow> state \<Rightarrow> response \<times> state" where
  "delete_task e req s =
     (let tid = param_id req in
      case select_task tid (userId req) s of
        None \<Rightarrow> (error_response 404 ''Task not found'', s)
      | Some task \<Rightarrow> (success_response, delete_task_row tid s))"

subsection \<open>Export\<close>

definition export_data :: "env \<Rightarrow> request \<Rightarrow> state \<Rightarrow> response \<times> state" where
  "export_data e req s =
     (let ps = filter (\<lambda>p. Some (p_user_id p) = userId req) (projects s);
          ts = filter (\<lambda>t. Some (t_user_id t) = userId req) (tasks s)
      in (json_response (Document
            [(''projects'', FArray (map (\<lambda>p. EObject (project_json p)) ps)),
             (''tasks'', FArray (map (\<lambda>t. EObject (task_json t)) ts))]), s))"

subsection \<open>Routing\<close>

datatype route =
    PostRegister | PostLogin | PostLogout | GetMe | PutProfile
  | GetProjects | PostProject | DeleteProject | PutProject
  | GetTasks | PostTask | PutTask | PatchToggle | DeleteTask | GetExport

fun protected :: "route \<Rightarrow> bool" where
  "protected PostRegister = False"
| "protected PostLogin = False"
| "protected r = True"

fun handler :: "route \<Rightarrow> env \<Rightarrow> request \<Rightarrow> state \<Rightarrow> response \<times> state" where
  "handler PostRegister = register"
| "handler PostLogin = login"
| "handler PostLogout = logout"
| "handler GetMe = me"
| "handler PutProfile = update_profile"
| "handler GetProjects = list_projects"
| "handler PostProject = create_project"
| "handler DeleteProject = delete_project"
| "handler PutProject = update_project"
| "handler GetTasks = list_tasks"
| "handler PostTask = create_task"
| "handler PutTask = update_task"
| "handler PatchToggle = toggle_task"
| "handler DeleteTask = delete_task"
| "handler GetExport = export_data"

definition handle :: "route \<Rightarrow> env \<Rightarrow> request \<Rightarrow> state \<Rightarrow> response \<times> state" where
  "handle r e req s =
     (if protected r then requireAuth req s (handler r e) else handler r e req s)"

text \<open>
  The states the server can be in: it starts with empty tables and no session, and every
  request is one step. \<^verbatim>\<open>crypto.randomBytes(32)\<close> gives 32 bytes. A restart of the
  process keeps the database file and loses the sessions.
\<close>

inductive reachable :: "state \<Rightarrow> bool" where
  reachable_init: "reachable init"
| reachable_step:
    "reachable s \<Longrightarrow> length (random_bytes e) = 32 \<Longrightarrow> reachable (snd (handle r e req s))"
| reachable_restart: "reachable s \<Longrightarrow> reachable (s\<lparr>sessions := Map.empty\<rparr>)"

section \<open>The server without sessions\<close>

text \<open>
  The second server of the repository has no users: its tables have no \<^verbatim>\<open>user_id\<close>
  column, no route asks for a token, and it has one route more, the import. The
  identifier of a project comes from the request there, so it may be NULL as a task's.
\<close>

record nproject =
  np_id :: "string option"
  np_name :: string
  np_created_at :: string

record ntask =
  nt_id :: "string option"
  nt_project_id :: string
  nt_name :: string
  nt_description :: "string option"
  nt_priority :: "string option"
  nt_deadline :: sqlval
  nt_completed :: sqlval
  nt_created_at :: string

record nstore =
  nprojects :: "nproject list"
  ntasks :: "ntask list"











text \<open>\<^verbatim>\<open>PATCH /api/tasks/:id/toggle\<close> of this server.\<close>

definition toggle_noauth :: "string \<Rightarrow> nstore \<Rightarrow> response \<times> nstore" where
  "toggle_noauth tid s =
     (case filter (\<lambda>t. nt_id t = Some tid) (ntasks s) of
        [] \<Rightarrow> (error_response 404 ''Task not found'', s)
      | task # rest \<Rightarrow>
          let newStatus = (if truthy (Some (js_of_sql (nt_completed task))) then 0 else 1) in
          (json_response (Value (FObject
             [(''success'', JBool True), (''completed'', JNum newStatus)])),
           s\<lparr>ntasks := map (\<lambda>t. if nt_id t = Some tid then t\<lparr>nt_completed := SInt newStatus\<rparr>
                                else t) (ntasks s)\<rparr>))"

section \<open>Invariants and the vocabulary of the properties\<close>

text \<open>
  What the schema and the handlers keep true of the store of \<^verbatim>\<open>server.js\<close>: project
  identifiers and non-NULL task identifiers are unique (they are primary keys), and
  \<^verbatim>\<open>completed\<close> is the integer 0 or 1 (its default, and the only values written).
\<close>

definition store_ok :: "state \<Rightarrow> bool" where
  "store_ok s \<longleftrightarrow>
     distinct (map p_id (projects s)) \<and>
     distinct (filter (\<lambda>i. i \<noteq> None) (map t_id (tasks s))) \<and>
     list_all (\<lambda>t. t_completed t = SInt 0 \<or> t_completed t = SInt 1) (tasks s)"

text \<open>The invariant of the data model: the project of a task belongs to the task's user.\<close>

definition task_project_owned :: "state \<Rightarrow> bool" where
  "task_project_owned s \<longleftrightarrow>
     list_all (\<lambda>t. list_ex (\<lambda>p. p_id p = t_project_id t \<and> p_user_id p = t_user_id t)
                      (projects s)) (tasks s)"

text \<open>The session middleware lets the request of user \<open>uid\<close> through.\<close>

definition authenticated :: "state \<Rightarrow> request \<Rightarrow> string \<Rightarrow> bool" where
  "authenticated s req uid \<longleftrightarrow>
     (case bearer_token req of
        None \<Rightarrow> False
      | Some token \<Rightarrow> token \<noteq> [] \<and> sessions s token = Some uid)"

text \<open>The request carries no bearer token, or one that the registry does not hold.\<close>

definition unauthenticated :: "state \<Rightarrow> request \<Rightarrow> bool" where
  "unauthenticated s req \<longleftrightarrow>
     (case bearer_token req of
        None \<Rightarrow> True
      | Some token \<Rightarrow> token = [] \<or> sessions s token = None)"

text \<open>Counting rows: the tasks of a user, and the tasks of a project.\<close>

definition tasks_of_user :: "string \<Rightarrow> state \<Rightarrow> task list" where
  "tasks_of_user uid s = filter (\<lambda>t. t_user_id t = uid) (tasks s)"

definition tasks_in_project :: "string \<Rightarrow> state \<Rightarrow> task list" where
  "tasks_in_project pid s = filter (\<lambda>t. t_project_id t = pid) (tasks s)"

text \<open>The names of the fields of the document a response carries.\<close>

fun response_fields :: "response \<Rightarrow> string list" where
  "response_fields r = (case rbody r of Document d \<Rightarrow> map fst d | _ \<Rightarrow> [])"

text \<open>The value a profile update leaves in a column: the supplied one when the request
  supplies one (a value JavaScript takes for true), the prior one otherwise.\<close>

definition supplied :: "scalar option \<Rightarrow> string \<Rightarrow> string" where
  "supplied v prior =
     (if truthy v then (case bind_text v of Some x \<Rightarrow> x | None \<Rightarrow> prior) else prior)"









text \<open>Every token of the session registry is 64 lower-case hex digits.\<close>

definition is_hex_char :: "char \<Rightarrow> bool" where
  "is_hex_char c \<longleftrightarrow> c \<in> set ''0123456789abcdef''"

definition hex_chars :: "string \<Rightarrow> bool" where
  "hex_chars token \<longleftrightarrow> list_all is_hex_char token"

definition session_tokens_hex :: "state \<Rightarrow> bool" where
  "session_tokens_hex s \<longleftrightarrow>
     (\<forall>token. sessions s token \<noteq> None \<longrightarrow> length token = 64 \<and> hex_chars token)"

subsection \<open>A run of the server\<close>

text \<open>
  Two users register and log in, each creates a project, and the second user creates a
  task in the own project. The requests below are used to try the properties on.
\<close>

definition request_of :: "string option \<Rightarrow> string \<Rightarrow> jsobject \<Rightarrow> request" where
  "request_of header ident obj =
     \<lparr>authorization = header, param_id = ident, query_project_id = None, body = obj,
      userId = None\<rparr>"

definition env_at :: "nat \<Rightarrow> 8 word \<Rightarrow> env" where
  "env_at n b = \<lparr>now = n, current_timestamp = ''2025-01-01 00:00:00'', random_bytes = replicate 32 b\<rparr>"

definition token_a :: string where
  "token_a = to_hex (replicate 32 (10 :: 8 word))"

definition token_b :: string where
  "token_b = to_hex (replicate 32 (11 :: 8 word))"

definition bearer :: "string \<Rightarrow> string option" where
  "bearer token = Some (''Bearer '' @ token)"

definition run_steps :: "(route \<times> env \<times> request) list \<Rightarrow> state \<Rightarrow> state" where
  "run_steps steps s = foldl (\<lambda>st (r, e, req). snd (handle r e req st)) s steps"

definition setup_steps :: "(route \<times> env \<times> request) list" where
  "setup_steps =
     [(PostRegister, env_at 1 0, request_of None [] [(''username'', JStr ''alice''),
         (''nickname'', JStr ''Alice''), (''password'', JStr ''pw1'')]),
      (PostRegister, env_at 2 0, request_of None [] [(''username'', JStr ''bob''),
         (''nickname'', JStr ''Bob''), (''password'', JStr ''pw2'')]),
      (PostLogin, env_at 3 10, request_of None [] [(''username'', JStr ''alice''),
         (''password'', JStr ''pw1'')]),
      (PostLogin, env_at 4 11, request_of None [] [(''username'', JStr ''bob''),
         (''password'', JStr ''pw2'')]),
      (PostProject, env_at 5 0, request_of (bearer token_a) [] [(''name'', JStr ''Home'')]),
      (PostProject, env_at 6 0, request_of (bearer token_b) [] [(''name'', JStr ''Work'')]),
      (PostTask, env_at 7 0, request_of (bearer token_b) [] [(''id'', JStr ''t1''),
         (''project_id'', JStr ''p6''), (''name'', JStr ''Report''),
         (''deadline'', JStr ''2025-12-31'')])]"

definition state_1 :: state where
  "state_1 = run_steps setup_steps init"

text \<open>The second user moves the own task \<open>t1\<close> into the first user's project \<open>p5\<close>.\<close>

definition move_task_request :: request where
  "move_task_request =
     request_of (bearer token_b) ''t1'' [(''project_id'', JStr ''p5''), (''name'', JStr ''Report''),
        (''deadline'', JStr ''2025-12-31'')]"

definition state_2 :: state where
  "state_2 = snd (handle PutTask (env_at 8 0) move_task_request state_1)"


section \<open>Proofs\<close>

subsection \<open>The session middleware\<close>

lemma requireAuth_unauthenticated:
  "unauthenticated s req \<Longrightarrow> requireAuth req s next = (error_response 401 ''Unauthorized'', s)"
  by (auto simp: unauthenticated_def requireAuth_def split: option.splits)

lemma requireAuth_authenticated:
  "authenticated s req uid \<Longrightarrow> requireAuth req s next = next (req\<lparr>userId := Some uid\<rparr>) s"
  by (auto simp: authenticated_def requireAuth_def split: option.splits)

lemma gate_cases: "unauthenticated s req \<or> (\<exists>uid. authenticated s req uid)"
  by (auto simp: unauthenticated_def authenticated_def split: option.splits)

lemma handle_preserves:
  assumes "P s" and "\<And>req'. P (snd (handler r e req' s))"
  shows "P (snd (handle r e req s))"
proof (cases "protected r")
  case False
  then show ?thesis using assms(2) by (simp add: handle_def)
next
  case True
  from gate_cases [of s req] show ?thesis
  proof
    assume "unauthenticated s req"
    then show ?thesis using True assms(1) by (simp add: handle_def requireAuth_unauthenticated)
  next
    assume "\<exists>uid. authenticated s req uid"
    then obtain uid where "authenticated s req uid" ..
    then show ?thesis using True assms(2) by (simp add: handle_def requireAuth_authenticated)
  qed
qed

subsection \<open>What each statement changes\<close>

lemma insert_user_tables:
  "insert_user uid un nn pw ts s = Inr s' \<Longrightarrow>
     projects s' = projects s \<and> tasks s' = tasks s \<and> sessions s' = sessions s"
  by (auto simp: insert_user_def split: option.splits if_splits)

lemma update_nickname_tables:
  "update_nickname v uid s = Inr s' \<Longrightarrow>
     projects s' = projects s \<and> tasks s' = tasks s \<and> sessions s' = sessions s"
  by (auto simp: update_nickname_def split: option.splits if_splits)

lemma update_password_tables:
  "update_password v uid s = Inr s' \<Longrightarrow>
     projects s' = projects s \<and> tasks s' = tasks s \<and> sessions s' = sessions s"
  by (auto simp: update_password_def split: option.splits if_splits)

lemma register_tables:
  "projects (snd (register e req s)) = projects s \<and> tasks (snd (register e req s)) = tasks s \<and>
   sessions (snd (register e req s)) = sessions s"
  by (auto simp: register_def Let_def dest: insert_user_tables split: sum.splits)

lemma update_profile_tables:
  "projects (snd (update_profile e req s)) = projects s \<and>
   tasks (snd (update_profile e req s)) = tasks s \<and>
   sessions (snd (update_profile e req s)) = sessions s"
  by (auto simp: update_profile_def Let_def
      dest!: update_nickname_tables update_password_tables split: sum.splits if_splits)

lemma login_tables:
  "projects (snd (login e req s)) = projects s \<and> tasks (snd (login e req s)) = tasks s \<and>
   users (snd (login e req s)) = users s"
  by (auto simp: login_def Let_def split: option.splits)

lemma logout_tables:
  "projects (snd (logout e req s)) = projects s \<and> tasks (snd (logout e req s)) = tasks s \<and>
   users (snd (logout e req s)) = users s"
  by (auto simp: logout_def split: option.splits)

lemma read_only:
  "snd (me e req s) = s" "snd (list_projects e req s) = s" "snd (list_tasks e req s) = s"
  "snd (export_data e req s) = s"
  by (auto simp: me_def list_projects_def list_tasks_def export_data_def Let_def split: option.splits)


subsection \<open>The primary keys and the completed flag\<close>

lemma distinct_keys_filter:
  "distinct (filter P (map f xs)) \<Longrightarrow> distinct (filter P (map f (filter Q xs)))"
  by (induction xs) auto

lemma map_key_update: "(\<And>x. f (g x) = f x) \<Longrightarrow> map (f \<circ> g) xs = map f xs"
  by (induction xs) auto

lemma list_all_filter: "list_all P xs \<Longrightarrow> list_all P (filter Q xs)"
  by (induction xs) auto

lemma list_all_update: "list_all P xs \<Longrightarrow> (\<And>x. P x \<Longrightarrow> P (g x)) \<Longrightarrow> list_all P (map g xs)"
  by (induction xs) auto

lemma store_ok_tables:
  "projects s' = projects s \<Longrightarrow> tasks s' = tasks s \<Longrightarrow> store_ok s' = store_ok s"
  by (simp add: store_ok_def)

lemma insert_project_ok:
  assumes "insert_project pid uid name ts s = Inr s'" and "store_ok s"
  shows "store_ok s'"
proof -
  from assms(1) obtain u n where s': "s' = s\<lparr>projects := projects s @
      [\<lparr>p_id = pid, p_user_id = u, p_name = n, p_created_at = ts\<rparr>]\<rparr>"
    and fresh: "\<not> list_ex (\<lambda>p. p_id p = pid) (projects s)"
    by (auto simp: insert_project_def split: option.splits if_splits)
  from fresh have "pid \<notin> set (map p_id (projects s))" by (auto simp: list_ex_iff)
  with assms(2) show ?thesis by (simp add: s' store_ok_def)
qed

lemma delete_project_ok:
  assumes "store_ok s"
  shows "store_ok (delete_project_row pid (delete_tasks_of_project pid s))"
  using assms unfolding store_ok_def delete_project_row_def delete_tasks_of_project_def
  by (simp add: distinct_map_filter distinct_keys_filter list_all_filter)

lemma update_project_name_ok:
  assumes "update_project_name name pid s = Inr s'" and "store_ok s"
  shows "store_ok s'"
proof -
  from assms(1) have "s' = s \<or> (\<exists>n. s' = s\<lparr>projects :=
      map (\<lambda>p. if p_id p = pid then p\<lparr>p_name := n\<rparr> else p) (projects s)\<rparr>)"
    by (auto simp: update_project_name_def split: option.splits if_splits)
  then show ?thesis
  proof
    assume "s' = s" then show ?thesis using assms(2) by simp
  next
    assume "\<exists>n. s' = s\<lparr>projects :=
      map (\<lambda>p. if p_id p = pid then p\<lparr>p_name := n\<rparr> else p) (projects s)\<rparr>"
    then obtain n where s': "s' = s\<lparr>projects :=
      map (\<lambda>p. if p_id p = pid then p\<lparr>p_name := n\<rparr> else p) (projects s)\<rparr>" ..
    show ?thesis using assms(2) unfolding s' store_ok_def by (simp add: map_key_update)
  qed
qed

lemma insert_task_ok:
  assumes "insert_task tid uid pid name d pr dl ts s = Inr s'" and "store_ok s"
  shows "store_ok s'"
proof -
  from assms(1) obtain row where s': "s' = s\<lparr>tasks := tasks s @ [row]\<rparr>"
    and key: "t_id row = bind_text tid" and c: "t_completed row = SInt 0"
    and fresh: "bind_text tid = None \<or> \<not> list_ex (\<lambda>t. t_id t = bind_text tid) (tasks s)"
    by (auto simp: insert_task_def split: option.splits if_splits)
  from fresh key have "t_id row = None \<or> t_id row \<notin> set (map t_id (tasks s))"
    by (auto simp: list_ex_iff)
  with assms(2) c show ?thesis unfolding s' store_ok_def by auto
qed

lemma update_task_row_ok:
  assumes "update_task_row name d pr dl c pid tid s = Inr s'" and "c = 0 \<or> c = 1" and "store_ok s"
  shows "store_ok s'"
proof -
  from assms(1) have "s' = s \<or> (\<exists>n p. s' = s\<lparr>tasks := map (\<lambda>t. if t_id t = Some tid
               then t\<lparr>t_name := n, t_description := bind_text d,
                      t_priority := bind_text pr, t_deadline := bind_param dl,
                      t_completed := SInt c, t_project_id := p\<rparr>
               else t) (tasks s)\<rparr>)"
    by (auto simp: update_task_row_def split: option.splits if_splits)
  then show ?thesis
  proof
    assume "s' = s" then show ?thesis using assms(3) by simp
  next
    assume "\<exists>n p. s' = s\<lparr>tasks := map (\<lambda>t. if t_id t = Some tid
               then t\<lparr>t_name := n, t_description := bind_text d,
                      t_priority := bind_text pr, t_deadline := bind_param dl,
                      t_completed := SInt c, t_project_id := p\<rparr>
               else t) (tasks s)\<rparr>"
    then obtain n p where s': "s' = s\<lparr>tasks := map (\<lambda>t. if t_id t = Some tid
               then t\<lparr>t_name := n, t_description := bind_text d,
                      t_priority := bind_text pr, t_deadline := bind_param dl,
                      t_completed := SInt c, t_project_id := p\<rparr>
               else t) (tasks s)\<rparr>" by blast
    from assms(3) have "list_all (\<lambda>t. t_completed t = SInt 0 \<or> t_completed t = SInt 1) (tasks s)"
      by (simp add: store_ok_def)
    then have "list_all (\<lambda>t. t_completed t = SInt 0 \<or> t_completed t = SInt 1)
        (map (\<lambda>t. if t_id t = Some tid
               then t\<lparr>t_name := n, t_description := bind_text d,
                      t_priority := bind_text pr, t_deadline := bind_param dl,
                      t_completed := SInt c, t_project_id := p\<rparr>
               else t) (tasks s))"
      using assms(2) by (intro list_all_update) auto
    then show ?thesis using assms(3) unfolding s' store_ok_def by (simp add: map_key_update)
  qed
qed

lemma set_completed_ok:
  assumes "c = 0 \<or> c = 1" and "store_ok s"
  shows "store_ok (set_completed c tid s)"
proof -
  from assms(2) have "list_all (\<lambda>t. t_completed t = SInt 0 \<or> t_completed t = SInt 1) (tasks s)"
    by (simp add: store_ok_def)
  then have "list_all (\<lambda>t. t_completed t = SInt 0 \<or> t_completed t = SInt 1)
      (map (\<lambda>t. if t_id t = Some tid then t\<lparr>t_completed := SInt c\<rparr> else t) (tasks s))"
    using assms(1) by (intro list_all_update) auto
  then show ?thesis using assms(2) unfolding set_completed_def store_ok_def
    by (simp add: map_key_update)
qed

lemma delete_task_row_ok: "store_ok s \<Longrightarrow> store_ok (delete_task_row tid s)"
  unfolding store_ok_def delete_task_row_def
  by (simp add: distinct_keys_filter list_all_filter)

subsection \<open>What each handler does to the tables\<close>

lemma create_project_outcome:
  "snd (create_project e req s) = s \<or>
   insert_project (''p'' @ string_of_nat (now e)) (userId req) (get_prop (body req) ''name'')
     (current_timestamp e) s = Inr (snd (create_project e req s))"
  by (simp add: create_project_def Let_def split: sum.split)

lemma delete_project_outcome:
  "snd (delete_project e req s) = s \<or>
   (select_project (Some (param_id req)) (userId req) s \<noteq> None \<and>
    snd (delete_project e req s) =
      delete_project_row (param_id req) (delete_tasks_of_project (param_id req) s))"
  by (simp add: delete_project_def split: option.split)

lemma update_project_outcome:
  "snd (update_project e req s) = s \<or>
   update_project_name (get_prop (body req) ''name'') (param_id req) s =
     Inr (snd (update_project e req s))"
  by (simp add: update_project_def Let_def split: option.split sum.split)

lemma create_task_outcome:
  "snd (create_task e req s) = s \<or>
   (select_project (bind_text (get_prop (body req) ''project_id'')) (userId req) s \<noteq> None \<and>
    insert_task (get_prop (body req) ''id'') (userId req) (get_prop (body req) ''project_id'')
      (get_prop (body req) ''name'')
      (if truthy (get_prop (body req) ''description'') then get_prop (body req) ''description''
       else Some (JStr []))
      (get_prop (body req) ''priority'') (get_prop (body req) ''deadline'')
      (current_timestamp e) s = Inr (snd (create_task e req s)))"
  by (simp add: create_task_def Let_def split: option.split sum.split)

lemma update_task_outcome:
  "snd (update_task e req s) = s \<or>
   (select_task (param_id req) (userId req) s \<noteq> None \<and>
    update_task_row (get_prop (body req) ''name'') (get_prop (body req) ''description'')
      (get_prop (body req) ''priority'') (get_prop (body req) ''deadline'')
      (if truthy (get_prop (body req) ''completed'') then 1 else 0)
      (get_prop (body req) ''project_id'') (param_id req) s = Inr (snd (update_task e req s)))"
  by (simp add: update_task_def Let_def split: option.split sum.split)

lemma toggle_task_outcome:
  "snd (toggle_task e req s) = s \<or>
   snd (toggle_task e req s) = set_completed 0 (param_id req) s \<or>
   snd (toggle_task e req s) = set_completed 1 (param_id req) s"
  by (simp add: toggle_task_def Let_def split: option.split)

lemma delete_task_outcome:
  "snd (delete_task e req s) = s \<or>
   snd (delete_task e req s) = delete_task_row (param_id req) s"
  by (simp add: delete_task_def Let_def split: option.split)

lemma handler_store_ok:
  assumes "store_ok s"
  shows "store_ok (snd (handler r e req s))"
proof (cases r)
  case PostRegister
  then show ?thesis
    using assms register_tables [of e req s] store_ok_tables [of "snd (register e req s)" s]
    by simp
next
  case PostLogin
  then show ?thesis
    using assms login_tables [of e req s] store_ok_tables [of "snd (login e req s)" s]
    by simp
next
  case PostLogout
  then show ?thesis
    using assms logout_tables [of e req s] store_ok_tables [of "snd (logout e req s)" s]
    by simp
next
  case GetMe
  then show ?thesis using assms by (simp add: read_only)
next
  case PutProfile
  then show ?thesis
    using assms update_profile_tables [of e req s]
      store_ok_tables [of "snd (update_profile e req s)" s]
    by simp
next
  case GetProjects
  then show ?thesis using assms by (simp add: read_only)
next
  case PostProject
  have "store_ok (snd (create_project e req s))"
    using create_project_outcome [of e req s] insert_project_ok [OF _ assms] assms by metis
  with PostProject show ?thesis by simp
next
  case DeleteProject
  have "store_ok (snd (delete_project e req s))"
    using delete_project_outcome [of e req s] delete_project_ok [OF assms] assms by metis
  with DeleteProject show ?thesis by simp
next
  case PutProject
  have "store_ok (snd (update_project e req s))"
    using update_project_outcome [of e req s] update_project_name_ok [OF _ assms] assms by metis
  with PutProject show ?thesis by simp
next
  case GetTasks
  then show ?thesis using assms by (simp add: read_only)
next
  case PostTask
  have "store_ok (snd (create_task e req s))"
    using create_task_outcome [of e req s] insert_task_ok [OF _ assms] assms by metis
  with PostTask show ?thesis by simp
next
  case PutTask
  have c: "(if truthy (get_prop (body req) ''completed'') then 1 else 0) = (0::int) \<or>
        (if truthy (get_prop (body req) ''completed'') then 1 else 0) = (1::int)" by simp
  have "store_ok (snd (update_task e req s))"
    using update_task_outcome [of e req s] update_task_row_ok [OF _ c assms] assms by metis
  with PutTask show ?thesis by simp
next
  case PatchToggle
  have "store_ok (snd (toggle_task e req s))"
    using toggle_task_outcome [of e req s] set_completed_ok [OF _ assms, of 0 "param_id req"]
      set_completed_ok [OF _ assms, of 1 "param_id req"] assms by auto
  with PatchToggle show ?thesis by simp
next
  case DeleteTask
  have "store_ok (snd (delete_task e req s))"
    using delete_task_outcome [of e req s] delete_task_row_ok [OF assms] assms by metis
  with DeleteTask show ?thesis by simp
next
  case GetExport
  then show ?thesis using assms by (simp add: read_only)
qed

lemma reachable_store_ok: "reachable s \<Longrightarrow> store_ok s"
proof (induction rule: reachable.induct)
  case reachable_init
  show ?case by (simp add: store_ok_def init_def)
next
  case (reachable_step s e r req)
  from reachable_step.IH show ?case
    by (rule handle_preserves) (rule handler_store_ok [OF reachable_step.IH])
next
  case (reachable_restart s)
  then show ?case by (simp add: store_ok_def)
qed

subsection \<open>The run of the server, evaluated\<close>

lemma handle_authenticated:
  "protected r \<Longrightarrow> authenticated s req uid \<Longrightarrow>
     handle r e req s = handler r e (req\<lparr>userId := Some uid\<rparr>) s"
  by (simp add: handle_def requireAuth_authenticated)

lemma handle_unauthenticated:
  "protected r \<Longrightarrow> unauthenticated s req \<Longrightarrow>
     handle r e req s = (error_response 401 ''Unauthorized'', s)"
  by (simp add: handle_def requireAuth_unauthenticated)

lemma authenticated_bearer:
  "authenticated s (request_of (bearer t) i b) uid \<longleftrightarrow> t \<noteq> [] \<and> sessions s t = Some uid"
  by (simp add: authenticated_def bearer_token_def request_of_def bearer_def)

lemma request_of_userId:
  "(request_of h i b)\<lparr>userId := u\<rparr> =
     \<lparr>authorization = h, param_id = i, query_project_id = None, body = b, userId = u\<rparr>"
  by (simp add: request_of_def)


lemma replace_bearer_prefix: "replace_first ''Bearer '' [] (''Bearer '' @ t) = t"
  by simp

lemma bearer_token_bearer: "bearer_token (request_of (bearer t) i b) = Some t"
  by (simp add: bearer_token_def request_of_def bearer_def)

lemma bearer_token_none: "bearer_token (request_of None i b) = None"
  by (simp add: bearer_token_def request_of_def)

lemma string_of_nat_digit: "n < 10 \<Longrightarrow> string_of_nat n = [digit_char n]"
  by (simp add: string_of_nat.simps)

lemma hex10: "hex_of_byte 10 = ''0a''"
  by (simp add: hex_of_byte_def hex_digit_def)

lemma hex11: "hex_of_byte 11 = ''0b''"
  by (simp add: hex_of_byte_def hex_digit_def)

lemma to_hex_replicate: "to_hex (replicate (Suc n) b) = hex_of_byte b @ to_hex (replicate n b)"
  by (simp add: to_hex_def)

lemma token_a_Cons: "token_a = CHR ''0'' # CHR ''a'' # to_hex (replicate 31 10)"
proof -
  have "replicate 32 (10 :: 8 word) = replicate (Suc 31) 10" by simp
  then show ?thesis unfolding token_a_def by (simp only: to_hex_replicate hex10 append.simps)
qed

lemma token_b_Cons: "token_b = CHR ''0'' # CHR ''b'' # to_hex (replicate 31 11)"
proof -
  have "replicate 32 (11 :: 8 word) = replicate (Suc 31) 11" by simp
  then show ?thesis unfolding token_b_def by (simp only: to_hex_replicate hex11 append.simps)
qed

lemma tokens_differ: "token_a \<noteq> token_b" "token_b \<noteq> token_a" "token_a \<noteq> []" "token_b \<noteq> []"
  by (simp_all add: token_a_Cons token_b_Cons)

lemma state_1_eq:
  "state_1 =
     \<lparr>users =
        [\<lparr>u_id = ''u1'', u_username = ''alice'', u_nickname = ''Alice'', u_password = ''pw1'',
          u_created_at = ''2025-01-01 00:00:00''\<rparr>,
         \<lparr>u_id = ''u2'', u_username = ''bob'', u_nickname = ''Bob'', u_password = ''pw2'',
          u_created_at = ''2025-01-01 00:00:00''\<rparr>],
      projects =
        [\<lparr>p_id = ''p5'', p_user_id = ''u1'', p_name = ''Home'',
          p_created_at = ''2025-01-01 00:00:00''\<rparr>,
         \<lparr>p_id = ''p6'', p_user_id = ''u2'', p_name = ''Work'',
          p_created_at = ''2025-01-01 00:00:00''\<rparr>],
      tasks =
        [\<lparr>t_id = Some ''t1'', t_user_id = ''u2'', t_project_id = ''p6'', t_name = ''Report'',
          t_description = Some [], t_priority = None, t_deadline = SText ''2025-12-31'',
          t_completed = SInt 0, t_created_at = ''2025-01-01 00:00:00''\<rparr>],
      sessions = [token_a \<mapsto> ''u1'', token_b \<mapsto> ''u2'']\<rparr>"
proof -
  let ?ua = "\<lparr>u_id = ''u1'', u_username = ''alice'', u_nickname = ''Alice'', u_password = ''pw1'',
          u_created_at = ''2025-01-01 00:00:00''\<rparr>"
  let ?ub = "\<lparr>u_id = ''u2'', u_username = ''bob'', u_nickname = ''Bob'', u_password = ''pw2'',
          u_created_at = ''2025-01-01 00:00:00''\<rparr>"
  let ?pa = "\<lparr>p_id = ''p5'', p_user_id = ''u1'', p_name = ''Home'',
          p_created_at = ''2025-01-01 00:00:00''\<rparr>"
  let ?pb = "\<lparr>p_id = ''p6'', p_user_id = ''u2'', p_name = ''Work'',
          p_created_at = ''2025-01-01 00:00:00''\<rparr>"
  let ?t = "\<lparr>t_id = Some ''t1'', t_user_id = ''u2'', t_project_id = ''p6'', t_name = ''Report'',
          t_description = Some [], t_priority = None, t_deadline = SText ''2025-12-31'',
          t_completed = SInt 0, t_created_at = ''2025-01-01 00:00:00''\<rparr>"
  let ?s1 = "\<lparr>users = [?ua], projects = [], tasks = [], sessions = Map.empty\<rparr>"
  let ?s2 = "\<lparr>users = [?ua, ?ub], projects = [], tasks = [], sessions = Map.empty\<rparr>"
  let ?s3 = "\<lparr>users = [?ua, ?ub], projects = [], tasks = [], sessions = [token_a \<mapsto> ''u1'']\<rparr>"
  let ?s4 = "\<lparr>users = [?ua, ?ub], projects = [], tasks = [],
             sessions = [token_a \<mapsto> ''u1'', token_b \<mapsto> ''u2'']\<rparr>"
  let ?s5 = "\<lparr>users = [?ua, ?ub], projects = [?pa], tasks = [],
             sessions = [token_a \<mapsto> ''u1'', token_b \<mapsto> ''u2'']\<rparr>"
  let ?s6 = "\<lparr>users = [?ua, ?ub], projects = [?pa, ?pb], tasks = [],
             sessions = [token_a \<mapsto> ''u1'', token_b \<mapsto> ''u2'']\<rparr>"
  let ?s7 = "\<lparr>users = [?ua, ?ub], projects = [?pa, ?pb], tasks = [?t],
             sessions = [token_a \<mapsto> ''u1'', token_b \<mapsto> ''u2'']\<rparr>"
  have 1: "snd (handle PostRegister (env_at 1 0) (request_of None [] [(''username'', JStr ''alice''),
         (''nickname'', JStr ''Alice''), (''password'', JStr ''pw1'')]) init) = ?s1"
    by (simp add: handle_def register_def request_of_def env_at_def init_def insert_user_def
        get_prop_def bind_text_def string_of_nat_digit digit_char_def Let_def)
  have 2: "snd (handle PostRegister (env_at 2 0) (request_of None [] [(''username'', JStr ''bob''),
         (''nickname'', JStr ''Bob''), (''password'', JStr ''pw2'')]) ?s1) = ?s2"
    by (simp add: handle_def register_def request_of_def env_at_def insert_user_def
        get_prop_def bind_text_def string_of_nat_digit digit_char_def Let_def)
  have 3: "snd (handle PostLogin (env_at 3 10) (request_of None [] [(''username'', JStr ''alice''),
         (''password'', JStr ''pw1'')]) ?s2) = ?s3"
    by (simp add: handle_def login_def request_of_def env_at_def
        get_prop_def bind_text_def Let_def token_a_def)
  have 4: "snd (handle PostLogin (env_at 4 11) (request_of None [] [(''username'', JStr ''bob''),
         (''password'', JStr ''pw2'')]) ?s3) = ?s4"
    by (simp add: handle_def login_def request_of_def env_at_def
        get_prop_def bind_text_def Let_def token_b_def)
  have 5: "snd (handle PostProject (env_at 5 0)
         (request_of (bearer token_a) [] [(''name'', JStr ''Home'')]) ?s4) = ?s5"
    by (subst handle_authenticated [where uid = "''u1''"])
       (simp_all add: authenticated_bearer tokens_differ request_of_userId create_project_def
        insert_project_def env_at_def get_prop_def bind_text_def
        string_of_nat_digit digit_char_def Let_def)
  have 6: "snd (handle PostProject (env_at 6 0)
         (request_of (bearer token_b) [] [(''name'', JStr ''Work'')]) ?s5) = ?s6"
    by (subst handle_authenticated [where uid = "''u2''"])
       (simp_all add: authenticated_bearer tokens_differ request_of_userId create_project_def
        insert_project_def env_at_def get_prop_def bind_text_def
        string_of_nat_digit digit_char_def Let_def)
  have 7: "snd (handle PostTask (env_at 7 0) (request_of (bearer token_b) [] [(''id'', JStr ''t1''),
         (''project_id'', JStr ''p6''), (''name'', JStr ''Report''),
         (''deadline'', JStr ''2025-12-31'')]) ?s6) = ?s7"
    by (subst handle_authenticated [where uid = "''u2''"])
       (simp_all add: authenticated_bearer tokens_differ request_of_userId create_task_def
        insert_task_def select_project_def env_at_def get_prop_def bind_text_def Let_def)
  show ?thesis
    unfolding state_1_def run_steps_def setup_steps_def foldl.simps prod.case
    by (simp only: 1 2 3 4 5 6 7)
qed

subsection \<open>The contract of the session middleware\<close>

lemma reachable_run_steps:
  "reachable s \<Longrightarrow> list_all (\<lambda>(r, e, req). length (random_bytes e) = 32) steps \<Longrightarrow>
     reachable (run_steps steps s)"
proof (induction steps arbitrary: s)
  case Nil
  then show ?case by (simp add: run_steps_def)
next
  case (Cons step steps)
  obtain r e req where step: "step = (r, e, req)" by (cases step)
  from Cons.prems have "reachable (snd (handle r e req s))"
    by (simp add: step reachable_step)
  moreover from Cons.prems have "list_all (\<lambda>(r, e, req). length (random_bytes e) = 32) steps"
    by simp
  ultimately have "reachable (run_steps steps (snd (handle r e req s)))" by (rule Cons.IH)
  then show ?case by (simp add: run_steps_def step)
qed

lemma reachable_state_1: "reachable state_1"
  unfolding state_1_def
  by (rule reachable_run_steps [OF reachable_init]) (simp add: setup_steps_def env_at_def)

text \<open>
  Claim C7. On a protected route, a request with no bearer token, with an empty one, or with
  one the session registry does not hold is answered 401 Unauthorized by the middleware:
  the handler is not called and the state (store and registry) is returned as it was.
  Otherwise the handler is called with \<^verbatim>\<open>req.userId\<close> set to the user the registry maps
  the token to, on the very state the middleware received, registry included. One of the
  two cases always applies.
\<close>

theorem requireAuth_contract:
  "(unauthenticated s req \<longrightarrow>
      requireAuth req s next = (error_response 401 ''Unauthorized'', s) \<and>
      (protected r \<longrightarrow> handle r e req s = (error_response 401 ''Unauthorized'', s))) \<and>
   (authenticated s req uid \<longrightarrow>
      sessions s (the (bearer_token req)) = Some uid \<and>
      requireAuth req s next = next (req\<lparr>userId := Some uid\<rparr>) s \<and>
      (protected r \<longrightarrow> handle r e req s = handler r e (req\<lparr>userId := Some uid\<rparr>) s)) \<and>
   (unauthenticated s req \<or> (\<exists>u. authenticated s req u))"
proof (intro conjI impI)
  show "unauthenticated s req \<or> (\<exists>u. authenticated s req u)" by (rule gate_cases)
next
  assume "authenticated s req uid"
  then show "sessions s (the (bearer_token req)) = Some uid"
    by (auto simp: authenticated_def split: option.splits)
qed (simp_all add: requireAuth_unauthenticated requireAuth_authenticated
    handle_unauthenticated handle_authenticated)

theorem requireAuth_contract_witness:
  "unauthenticated state_1 (request_of None [] []) \<and>
   handle GetProjects (env_at 9 0) (request_of None [] []) state_1 =
     (error_response 401 ''Unauthorized'', state_1) \<and>
   authenticated state_1 (request_of (bearer token_b) [] []) ''u2'' \<and>
   handle GetProjects (env_at 9 0) (request_of (bearer token_b) [] []) state_1 =
     list_projects (env_at 9 0) ((request_of (bearer token_b) [] [])\<lparr>userId := Some ''u2''\<rparr>) state_1"
proof -
  have u: "unauthenticated state_1 (request_of None [] [])"
    by (simp add: unauthenticated_def bearer_token_none)
  have a: "authenticated state_1 (request_of (bearer token_b) [] []) ''u2''"
    by (simp add: authenticated_bearer tokens_differ state_1_eq)
  have p: "protected GetProjects" by simp
  from requireAuth_contract [of state_1 "request_of None [] []" "list_projects (env_at 9 0)" GetProjects "env_at 9 0"] u p
  have 1: "handle GetProjects (env_at 9 0) (request_of None [] []) state_1 =
     (error_response 401 ''Unauthorized'', state_1)" by blast
  from requireAuth_contract [of state_1 "request_of (bearer token_b) [] []" "list_projects (env_at 9 0)" GetProjects
      "env_at 9 0" "''u2''"] a p
  have 2: "handle GetProjects (env_at 9 0) (request_of (bearer token_b) [] []) state_1 =
     handler GetProjects (env_at 9 0) ((request_of (bearer token_b) [] [])\<lparr>userId := Some ''u2''\<rparr>) state_1"
    by blast
  from u a 1 2 show ?thesis by simp
qed

subsection \<open>Session tokens and the bearer prefix\<close>

lemma hex_digit_hex: "is_hex_char (hex_digit d)"
proof -
  have "d mod 16 < length ''0123456789abcdef''" by simp
  then have "''0123456789abcdef'' ! (d mod 16) \<in> set ''0123456789abcdef''" by (rule nth_mem)
  then show ?thesis by (simp only: hex_digit_def is_hex_char_def)
qed

lemma hex_chars_to_hex: "hex_chars (to_hex bs)"
  by (induction bs) (simp_all add: hex_chars_def to_hex_def hex_of_byte_def hex_digit_hex)

lemma length_to_hex: "length (to_hex bs) = 2 * length bs"
  by (induction bs) (simp_all add: to_hex_def hex_of_byte_def)

lemma insert_project_sessions:
  "insert_project pid uid name ts s = Inr s' \<Longrightarrow> sessions s' = sessions s"
  by (auto simp: insert_project_def split: option.splits if_splits)

lemma update_project_name_sessions:
  "update_project_name name pid s = Inr s' \<Longrightarrow> sessions s' = sessions s"
  by (auto simp: update_project_name_def split: option.splits if_splits)

lemma insert_task_sessions:
  "insert_task tid uid pid name d pr dl ts s = Inr s' \<Longrightarrow> sessions s' = sessions s"
  by (auto simp: insert_task_def split: option.splits if_splits)

lemma update_task_row_sessions:
  "update_task_row name d pr dl c pid tid s = Inr s' \<Longrightarrow> sessions s' = sessions s"
  by (auto simp: update_task_row_def split: option.splits if_splits)

lemma statement_sessions:
  "sessions (delete_project_row pid s) = sessions s"
  "sessions (delete_tasks_of_project pid s) = sessions s"
  "sessions (set_completed c tid s) = sessions s"
  "sessions (delete_task_row tid s) = sessions s"
  by (simp_all add: delete_project_row_def delete_tasks_of_project_def set_completed_def
      delete_task_row_def)

lemma handler_sessions:
  assumes "r \<noteq> PostLogin" and "r \<noteq> PostLogout"
  shows "sessions (snd (handler r e req s)) = sessions s"
proof (cases r)
  case PostRegister
  then show ?thesis using register_tables [of e req s] by simp
next
  case PostLogin
  with assms show ?thesis by simp
next
  case PostLogout
  with assms show ?thesis by simp
next
  case GetMe
  then show ?thesis by (simp add: read_only)
next
  case PutProfile
  then show ?thesis using update_profile_tables [of e req s] by simp
next
  case GetProjects
  then show ?thesis by (simp add: read_only)
next
  case PostProject
  have "sessions (snd (create_project e req s)) = sessions s"
    using create_project_outcome [of e req s] insert_project_sessions by metis
  with PostProject show ?thesis by simp
next
  case DeleteProject
  have "sessions (snd (delete_project e req s)) = sessions s"
    using delete_project_outcome [of e req s] by (auto simp: statement_sessions)
  with DeleteProject show ?thesis by simp
next
  case PutProject
  have "sessions (snd (update_project e req s)) = sessions s"
    using update_project_outcome [of e req s] update_project_name_sessions by metis
  with PutProject show ?thesis by simp
next
  case GetTasks
  then show ?thesis by (simp add: read_only)
next
  case PostTask
  have "sessions (snd (create_task e req s)) = sessions s"
    using create_task_outcome [of e req s] insert_task_sessions by metis
  with PostTask show ?thesis by simp
next
  case PutTask
  have "sessions (snd (update_task e req s)) = sessions s"
    using update_task_outcome [of e req s] update_task_row_sessions by metis
  with PutTask show ?thesis by simp
next
  case PatchToggle
  have "sessions (snd (toggle_task e req s)) = sessions s"
    using toggle_task_outcome [of e req s] by (auto simp: statement_sessions)
  with PatchToggle show ?thesis by simp
next
  case DeleteTask
  have "sessions (snd (delete_task e req s)) = sessions s"
    using delete_task_outcome [of e req s] by (auto simp: statement_sessions)
  with DeleteTask show ?thesis by simp
next
  case GetExport
  then show ?thesis by (simp add: read_only)
qed

lemma login_sessions:
  "sessions (snd (login e req s)) = sessions s \<or>
   (\<exists>uid. sessions (snd (login e req s)) = (sessions s)(to_hex (random_bytes e) \<mapsto> uid))"
  by (auto simp: login_def Let_def split: option.splits)

lemma logout_sessions:
  "sessions (snd (logout e req s)) = sessions s \<or>
   (\<exists>token. sessions (snd (logout e req s)) = (sessions s)(token := None))"
  by (auto simp: logout_def split: option.splits)

lemma tokens_hex_add:
  "session_tokens_hex s \<Longrightarrow> sessions s' = (sessions s)(t \<mapsto> u) \<Longrightarrow> length t = 64 \<Longrightarrow>
     hex_chars t \<Longrightarrow> session_tokens_hex s'"
  by (simp add: session_tokens_hex_def)

lemma tokens_hex_remove:
  "session_tokens_hex s \<Longrightarrow> sessions s' = (sessions s)(t := None) \<Longrightarrow> session_tokens_hex s'"
  by (simp add: session_tokens_hex_def)

lemma tokens_hex_same:
  "session_tokens_hex s \<Longrightarrow> sessions s' = sessions s \<Longrightarrow> session_tokens_hex s'"
  by (simp add: session_tokens_hex_def)

lemma handler_tokens_hex:
  assumes "session_tokens_hex s" and "length (random_bytes e) = 32"
  shows "session_tokens_hex (snd (handler r e req s))"
proof -
  consider "r = PostLogin" | "r = PostLogout" | "r \<noteq> PostLogin" "r \<noteq> PostLogout" by blast
  then show ?thesis
  proof cases
    case 1
    from assms(2) have len: "length (to_hex (random_bytes e)) = 64" by (simp add: length_to_hex)
    have "session_tokens_hex (snd (login e req s))"
      using login_sessions [of e req s] tokens_hex_same [OF assms(1)]
        tokens_hex_add [OF assms(1) _ len hex_chars_to_hex] by blast
    with 1 show ?thesis by simp
  next
    case 2
    have "session_tokens_hex (snd (logout e req s))"
      using logout_sessions [of e req s] tokens_hex_same [OF assms(1)]
        tokens_hex_remove [OF assms(1)] by blast
    with 2 show ?thesis by simp
  next
    case 3
    then have "sessions (snd (handler r e req s)) = sessions s" by (rule handler_sessions)
    with assms(1) show ?thesis by (rule tokens_hex_same)
  qed
qed

lemma reachable_tokens_hex: "reachable s \<Longrightarrow> session_tokens_hex s"
proof (induction rule: reachable.induct)
  case reachable_init
  show ?case by (simp add: session_tokens_hex_def init_def)
next
  case (reachable_step s e r req)
  from reachable_step.IH show ?case
    by (rule handle_preserves) (rule handler_tokens_hex [OF reachable_step.IH reachable_step.hyps(2)])
next
  case (reachable_restart s)
  show ?case by (simp add: session_tokens_hex_def)
qed

lemma replace_first_absent: "p \<notin> set s \<Longrightarrow> replace_first (p # ps) rep s = s"
  by (induction s) auto

lemma hex_chars_no_B: "hex_chars t \<Longrightarrow> CHR ''B'' \<notin> set t"
proof
  assume "hex_chars t" and "CHR ''B'' \<in> set t"
  then have "is_hex_char CHR ''B''" by (simp add: hex_chars_def list_all_iff)
  then show False by (simp add: is_hex_char_def)
qed

text \<open>
  Claim C10. In every reachable state, a token of the session registry is accepted by the
  middleware with and without the prefix \<^verbatim>\<open>Bearer \<close>: the header that is exactly the
  token and the header \<^verbatim>\<open>Bearer \<close> followed by the token give the same extracted token
  and the same user, so that a protected route runs its handler for that user in both
  cases. The middleware only replaces the first occurrence of \<^verbatim>\<open>Bearer \<close> in the
  header by the empty string, and a token of hex digits has no such occurrence.
\<close>

theorem bearer_prefix_optional:
  assumes "reachable s" and "sessions s token = Some uid"
  shows "bearer_token (req\<lparr>authorization := Some token\<rparr>) = Some token \<and>
         bearer_token (req\<lparr>authorization := Some (''Bearer '' @ token)\<rparr>) = Some token \<and>
         authenticated s (req\<lparr>authorization := Some token\<rparr>) uid \<and>
         authenticated s (req\<lparr>authorization := Some (''Bearer '' @ token)\<rparr>) uid \<and>
         (protected r \<longrightarrow>
            handle r e (req\<lparr>authorization := Some token\<rparr>) s =
              handler r e (req\<lparr>authorization := Some token, userId := Some uid\<rparr>) s \<and>
            handle r e (req\<lparr>authorization := Some (''Bearer '' @ token)\<rparr>) s =
              handler r e (req\<lparr>authorization := Some (''Bearer '' @ token), userId := Some uid\<rparr>) s)"
proof -
  from assms have hex: "length token = 64" "hex_chars token"
    using reachable_tokens_hex [OF assms(1)] by (auto simp: session_tokens_hex_def)
  from hex(2) have "replace_first ''Bearer '' [] token = token"
    by (intro replace_first_absent hex_chars_no_B)
  then have 1: "bearer_token (req\<lparr>authorization := Some token\<rparr>) = Some token"
    by (simp add: bearer_token_def)
  have 2: "bearer_token (req\<lparr>authorization := Some (''Bearer '' @ token)\<rparr>) = Some token"
    by (simp add: bearer_token_def)
  from hex(1) have ne: "token \<noteq> []" by auto
  from 1 ne assms(2) have 3: "authenticated s (req\<lparr>authorization := Some token\<rparr>) uid"
    by (simp add: authenticated_def)
  from 2 ne assms(2) have 4: "authenticated s (req\<lparr>authorization := Some (''Bearer '' @ token)\<rparr>) uid"
    by (simp add: authenticated_def)
  from 1 2 3 4 show ?thesis by (simp add: handle_authenticated)
qed

theorem bearer_prefix_optional_witness:
  "reachable state_1 \<and> sessions state_1 token_a = Some ''u1'' \<and>
   authenticated state_1 (request_of (Some token_a) [] []) ''u1'' \<and>
   authenticated state_1 (request_of (Some (''Bearer '' @ token_a)) [] []) ''u1'' \<and>
   handle GetExport (env_at 9 0) (request_of (Some token_a) [] []) state_1 =
     handle GetExport (env_at 9 0) (request_of (Some (''Bearer '' @ token_a)) [] []) state_1"
proof -
  have s: "sessions state_1 token_a = Some ''u1''" by (simp add: state_1_eq tokens_differ)
  have p: "protected GetExport" by simp
  note w = bearer_prefix_optional [OF reachable_state_1 s,
      of "request_of None [] []" GetExport "env_at 9 0"]
  have r1: "(request_of None [] [])\<lparr>authorization := Some token_a\<rparr> = request_of (Some token_a) [] []"
    by (simp add: request_of_def)
  have r2: "(request_of None [] [])\<lparr>authorization := Some (''Bearer '' @ token_a)\<rparr> =
      request_of (Some (''Bearer '' @ token_a)) [] []"
    by (simp add: request_of_def)
  have e: "export_data (env_at 9 0) ((request_of (Some token_a) [] [])\<lparr>userId := Some ''u1''\<rparr>) state_1 =
      export_data (env_at 9 0) ((request_of (Some (''Bearer '' @ token_a)) [] [])\<lparr>userId := Some ''u1''\<rparr>) state_1"
    by (simp add: export_data_def request_of_def)
  from w p e show ?thesis
    unfolding r1 r2 using reachable_state_1 s by simp
qed

subsection \<open>Ownership checks of projects\<close>

lemma find_None_list_ex: "find P xs = None \<longleftrightarrow> \<not> list_ex P xs"
  by (induction xs) simp_all

lemma find_Some_list_ex: "find P xs = Some x \<Longrightarrow> list_ex P xs \<and> x \<in> set xs \<and> P x"
  by (induction xs) (simp_all split: if_splits)

lemma unique_key:
  "distinct (map f xs) \<Longrightarrow> x \<in> set xs \<Longrightarrow> y \<in> set xs \<Longrightarrow> f x = f y \<Longrightarrow> x = y"
proof -
  assume "distinct (map f xs)" and x: "x \<in> set xs" and y: "y \<in> set xs" and eq: "f x = f y"
  then have "inj_on f (set xs)" by (simp add: distinct_map)
  from this eq x y show "x = y" by (rule inj_onD)
qed




lemma foreign_project_not_found:
  assumes "store_ok s" and "list_ex (\<lambda>p. p_id p = i \<and> p_user_id p \<noteq> uid) (projects s)"
  shows "select_project (Some i) (Some uid) s = None"
proof (rule ccontr)
  assume "select_project (Some i) (Some uid) s \<noteq> None"
  then obtain q where "select_project (Some i) (Some uid) s = Some q" by blast
  then have "find (\<lambda>p. Some (p_id p) = Some i \<and> Some (p_user_id p) = Some uid) (projects s) = Some q"
    by (simp only: select_project_def)
  from find_Some_list_ex [OF this]
  have q: "q \<in> set (projects s)" "p_id q = i" "p_user_id q = uid" by simp_all
  from assms(2) obtain p where p: "p \<in> set (projects s)" "p_id p = i" "p_user_id p \<noteq> uid"
    unfolding list_ex_iff by blast
  from assms(1) have "distinct (map p_id (projects s))" by (simp add: store_ok_def)
  moreover from p(2) q(2) have "p_id p = p_id q" by simp
  ultimately have "p = q" using p(1) q(1) by (metis unique_key)
  with p(3) q(3) show False by simp
qed

lemma select_project_None:
  "select_project pid (Some uid) s = None \<longleftrightarrow>
     \<not> list_ex (\<lambda>p. Some (p_id p) = pid \<and> p_user_id p = uid) (projects s)"
  by (simp add: select_project_def find_None_list_ex)

lemma update_project_not_found:
  "select_project (Some (param_id req)) (userId req) s = None \<Longrightarrow>
     update_project e req s = (error_response 404 ''Project not found'', s)"
  by (simp add: update_project_def)

lemma delete_project_not_found:
  "select_project (Some (param_id req)) (userId req) s = None \<Longrightarrow>
     delete_project e req s = (error_response 404 ''Project not found'', s)"
  by (simp add: delete_project_def)

lemma update_project_found:
  "select_project (Some (param_id req)) (userId req) s \<noteq> None \<Longrightarrow>
     status (fst (update_project e req s)) \<noteq> 404"
  by (auto simp: update_project_def Let_def error_response_def json_response_def
      split: option.splits sum.splits)

lemma delete_project_found:
  "select_project (Some (param_id req)) (userId req) s \<noteq> None \<Longrightarrow>
     status (fst (delete_project e req s)) \<noteq> 404"
  by (auto simp: delete_project_def success_response_def json_response_def split: option.splits)

text \<open>
  Claim C8. For a project update or delete by an authenticated caller: when no project
  row has both the requested id and the caller's user id, the answer is 404 Project not
  found and the state is the one before the request; this is the only way to a 404 (with
  such a row the answer is not 404). In a reachable state a project of the requested id
  that belongs to another user leaves no such row, so the caller gets the 404 and the
  other user's project, like everything else, stays as it was.
\<close>

theorem project_ownership_check:
  assumes "authenticated s req uid" and "r = PutProject \<or> r = DeleteProject"
  shows "(\<not> list_ex (\<lambda>p. p_id p = param_id req \<and> p_user_id p = uid) (projects s) \<longrightarrow>
            handle r e req s = (error_response 404 ''Project not found'', s)) \<and>
         (list_ex (\<lambda>p. p_id p = param_id req \<and> p_user_id p = uid) (projects s) \<longrightarrow>
            status (fst (handle r e req s)) \<noteq> 404) \<and>
         (reachable s \<and>
          list_ex (\<lambda>p. p_id p = param_id req \<and> p_user_id p \<noteq> uid) (projects s) \<longrightarrow>
            handle r e req s = (error_response 404 ''Project not found'', s))"
proof -
  let ?req = "req\<lparr>userId := Some uid\<rparr>"
  from assms(2) have "protected r" by auto
  then have h: "handle r e req s = handler r e ?req s"
    using assms(1) by (rule handle_authenticated)
  have none: "handler r e ?req s = (error_response 404 ''Project not found'', s)"
    if "select_project (Some (param_id req)) (Some uid) s = None"
    using assms(2)
  proof
    assume "r = PutProject"
    then show ?thesis using that by (simp add: update_project_not_found)
  next
    assume "r = DeleteProject"
    then show ?thesis using that by (simp add: delete_project_not_found)
  qed
  have some: "status (fst (handler r e ?req s)) \<noteq> 404"
    if "select_project (Some (param_id req)) (Some uid) s \<noteq> None"
    using assms(2)
  proof
    assume "r = PutProject"
    then show ?thesis using that update_project_found [of ?req s e] by simp
  next
    assume "r = DeleteProject"
    then show ?thesis using that delete_project_found [of ?req s e] by simp
  qed
  have 1: "\<not> list_ex (\<lambda>p. p_id p = param_id req \<and> p_user_id p = uid) (projects s) \<longrightarrow>
            handle r e req s = (error_response 404 ''Project not found'', s)"
    using none by (simp add: h select_project_None)
  have 2: "list_ex (\<lambda>p. p_id p = param_id req \<and> p_user_id p = uid) (projects s) \<longrightarrow>
            status (fst (handle r e req s)) \<noteq> 404"
    using some by (simp add: h select_project_None)
  have 3: "reachable s \<and>
          list_ex (\<lambda>p. p_id p = param_id req \<and> p_user_id p \<noteq> uid) (projects s) \<longrightarrow>
            handle r e req s = (error_response 404 ''Project not found'', s)"
  proof
    assume a: "reachable s \<and>
          list_ex (\<lambda>p. p_id p = param_id req \<and> p_user_id p \<noteq> uid) (projects s)"
    then have "store_ok s" by (simp add: reachable_store_ok)
    moreover from a have "list_ex (\<lambda>p. p_id p = param_id req \<and> p_user_id p \<noteq> uid)
        (projects s)" by simp
    ultimately have "select_project (Some (param_id req)) (Some uid) s = None"
      by (rule foreign_project_not_found)
    then show "handle r e req s = (error_response 404 ''Project not found'', s)"
      using none by (simp add: h)
  qed
  from 1 2 3 show ?thesis by blast
qed

theorem project_ownership_check_witness:
  "authenticated state_1 (request_of (bearer token_b) ''p5'' [(''name'', JStr ''Mine'')]) ''u2'' \<and>
   reachable state_1 \<and>
   list_ex (\<lambda>p. p_id p = ''p5'' \<and> p_user_id p \<noteq> ''u2'') (projects state_1) \<and>
   handle PutProject (env_at 9 0) (request_of (bearer token_b) ''p5'' [(''name'', JStr ''Mine'')])
     state_1 = (error_response 404 ''Project not found'', state_1) \<and>
   handle DeleteProject (env_at 9 0) (request_of (bearer token_b) ''p5'' [(''name'', JStr ''Mine'')])
     state_1 = (error_response 404 ''Project not found'', state_1) \<and>
   status (fst (handle DeleteProject (env_at 9 0)
     (request_of (bearer token_b) ''p6'' [(''name'', JStr ''Mine'')]) state_1)) \<noteq> 404"
proof -
  let ?req = "request_of (bearer token_b) ''p5'' [(''name'', JStr ''Mine'')]"
  let ?own = "request_of (bearer token_b) ''p6'' [(''name'', JStr ''Mine'')]"
  have a: "authenticated state_1 ?req ''u2''" "authenticated state_1 ?own ''u2''"
    by (simp_all add: authenticated_bearer tokens_differ state_1_eq)
  have f: "list_ex (\<lambda>p. p_id p = param_id ?req \<and> p_user_id p \<noteq> ''u2'') (projects state_1)"
    by (simp add: state_1_eq request_of_def)
  have o: "list_ex (\<lambda>p. p_id p = param_id ?own \<and> p_user_id p = ''u2'') (projects state_1)"
    by (simp add: state_1_eq request_of_def)
  from project_ownership_check [OF a(1), of PutProject "env_at 9 0"] f reachable_state_1
  have 1: "handle PutProject (env_at 9 0) ?req state_1 =
      (error_response 404 ''Project not found'', state_1)" by blast
  from project_ownership_check [OF a(1), of DeleteProject "env_at 9 0"] f reachable_state_1
  have 2: "handle DeleteProject (env_at 9 0) ?req state_1 =
      (error_response 404 ''Project not found'', state_1)" by blast
  from project_ownership_check [OF a(2), of DeleteProject "env_at 9 0"] o
  have 3: "status (fst (handle DeleteProject (env_at 9 0) ?own state_1)) \<noteq> 404" by blast
  from f have f': "list_ex (\<lambda>p. p_id p = ''p5'' \<and> p_user_id p \<noteq> ''u2'') (projects state_1)"
    by (simp add: request_of_def)
  from a(1) reachable_state_1 f' 1 2 3 show ?thesis by simp
qed

subsection \<open>Task creation against a project\<close>

lemma create_task_invalid_project:
  "select_project (bind_text (get_prop (body req) ''project_id'')) (userId req) s = None \<Longrightarrow>
     create_task e req s = (error_response 400 ''Invalid project'', s)"
  by (simp add: create_task_def Let_def)

lemma create_task_status:
  "status (fst (create_task e req s)) = 200 \<Longrightarrow>
     select_project (bind_text (get_prop (body req) ''project_id'')) (userId req) s \<noteq> None"
  by (cases "select_project (bind_text (get_prop (body req) ''project_id'')) (userId req) s")
     (simp_all add: create_task_def Let_def error_response_def)

lemma select_project_Some_owned:
  "select_project pid (Some uid) s \<noteq> None \<Longrightarrow>
     list_ex (\<lambda>p. Some (p_id p) = pid \<and> p_user_id p = uid) (projects s)"
  by (simp add: select_project_def find_None_list_ex)

lemma select_project_null: "select_project None uid s = None"
  by (simp add: select_project_def find_None_list_ex list_ex_iff)

text \<open>
  Claim C2. An authenticated caller who creates a task naming a project that belongs to
  another user gets 400 Invalid project and the state stays as it was, so no task row is
  inserted (in every reachable state, for every such pair of users and project). The same
  holds whenever no project row has both the named id and the caller's user id; and when
  the answer is 200, such a row exists: the project exists and is owned by the caller.
\<close>

theorem create_task_foreign_project:
  assumes "authenticated s req uid"
  shows "(reachable s \<and> list_ex (\<lambda>p. Some (p_id p) = bind_text (get_prop (body req) ''project_id'') \<and>
                              p_user_id p \<noteq> uid) (projects s) \<longrightarrow>
            handle PostTask e req s = (error_response 400 ''Invalid project'', s)) \<and>
         (\<not> list_ex (\<lambda>p. Some (p_id p) = bind_text (get_prop (body req) ''project_id'') \<and>
                        p_user_id p = uid) (projects s) \<longrightarrow>
            handle PostTask e req s = (error_response 400 ''Invalid project'', s)) \<and>
         (status (fst (handle PostTask e req s)) = 200 \<longrightarrow>
            list_ex (\<lambda>p. Some (p_id p) = bind_text (get_prop (body req) ''project_id'') \<and>
                        p_user_id p = uid) (projects s))"
proof -
  let ?req = "req\<lparr>userId := Some uid\<rparr>"
  let ?pid = "bind_text (get_prop (body req) ''project_id'')"
  have h: "handle PostTask e req s = create_task e ?req s"
    using assms by (simp add: handle_authenticated)
  have none: "handle PostTask e req s = (error_response 400 ''Invalid project'', s)"
    if "select_project ?pid (Some uid) s = None"
    using that by (simp add: h create_task_invalid_project)
  have 1: "reachable s \<and> list_ex (\<lambda>p. Some (p_id p) = ?pid \<and> p_user_id p \<noteq> uid) (projects s) \<longrightarrow>
            handle PostTask e req s = (error_response 400 ''Invalid project'', s)"
  proof
    assume a: "reachable s \<and> list_ex (\<lambda>p. Some (p_id p) = ?pid \<and> p_user_id p \<noteq> uid) (projects s)"
    then have ok: "store_ok s" by (simp add: reachable_store_ok)
    from a obtain p where p: "p \<in> set (projects s)" "Some (p_id p) = ?pid" "p_user_id p \<noteq> uid"
      unfolding list_ex_iff by blast
    then have "list_ex (\<lambda>q. p_id q = p_id p \<and> p_user_id q \<noteq> uid) (projects s)"
      unfolding list_ex_iff by blast
    with ok have "select_project (Some (p_id p)) (Some uid) s = None"
      by (rule foreign_project_not_found)
    with p(2) have "select_project ?pid (Some uid) s = None" by simp
    then show "handle PostTask e req s = (error_response 400 ''Invalid project'', s)" by (rule none)
  qed
  have 2: "\<not> list_ex (\<lambda>p. Some (p_id p) = ?pid \<and> p_user_id p = uid) (projects s) \<longrightarrow>
            handle PostTask e req s = (error_response 400 ''Invalid project'', s)"
    using none by (simp add: select_project_None)
  have 3: "status (fst (handle PostTask e req s)) = 200 \<longrightarrow>
            list_ex (\<lambda>p. Some (p_id p) = ?pid \<and> p_user_id p = uid) (projects s)"
  proof
    assume "status (fst (handle PostTask e req s)) = 200"
    then have "status (fst (create_task e ?req s)) = 200" by (simp only: h)
    then have "select_project ?pid (Some uid) s \<noteq> None"
      using create_task_status [of e ?req s] by simp
    then show "list_ex (\<lambda>p. Some (p_id p) = ?pid \<and> p_user_id p = uid) (projects s)"
      by (rule select_project_Some_owned)
  qed
  from 1 2 3 show ?thesis by blast
qed


theorem create_task_foreign_project_witness:
  "authenticated state_1 (request_of (bearer token_b) [] [(''id'', JStr ''t2''),
       (''project_id'', JStr ''p5''), (''name'', JStr ''Intruder''),
       (''deadline'', JStr ''2025-12-31'')]) ''u2'' \<and>
   reachable state_1 \<and>
   list_ex (\<lambda>p. p_id p = ''p5'' \<and> p_user_id p \<noteq> ''u2'') (projects state_1) \<and>
   handle PostTask (env_at 9 0) (request_of (bearer token_b) [] [(''id'', JStr ''t2''),
       (''project_id'', JStr ''p5''), (''name'', JStr ''Intruder''),
       (''deadline'', JStr ''2025-12-31'')]) state_1 =
     (error_response 400 ''Invalid project'', state_1)"
proof -
  let ?req = "request_of (bearer token_b) [] [(''id'', JStr ''t2''),
       (''project_id'', JStr ''p5''), (''name'', JStr ''Intruder''),
       (''deadline'', JStr ''2025-12-31'')]"
  have a: "authenticated state_1 ?req ''u2''"
    by (simp add: authenticated_bearer tokens_differ state_1_eq)
  have b: "bind_text (get_prop (body ?req) ''project_id'') = Some ''p5''"
    by (simp add: request_of_def get_prop_def bind_text_def)
  have f: "list_ex (\<lambda>p. p_id p = ''p5'' \<and> p_user_id p \<noteq> ''u2'') (projects state_1)"
    by (simp add: state_1_eq)
  then have "list_ex (\<lambda>p. Some (p_id p) = bind_text (get_prop (body ?req) ''project_id'') \<and>
      p_user_id p \<noteq> ''u2'') (projects state_1)"
    by (simp only: b option.inject)
  with create_task_foreign_project [OF a, of "env_at 9 0"] reachable_state_1
  have "handle PostTask (env_at 9 0) ?req state_1 = (error_response 400 ''Invalid project'', state_1)"
    by blast
  with a f reachable_state_1 show ?thesis by simp
qed

subsection \<open>The profile update\<close>

lemma truthy_bind_text: "truthy v \<Longrightarrow> \<exists>x. bind_text v = Some x"
  by (cases v rule: truthy.cases) (simp_all add: bind_text_def)

lemma update_nickname_supplied:
  assumes "truthy v"
  shows "update_nickname v (Some uid) s =
     Inr (s\<lparr>users := map (\<lambda>u. if u_id u = uid then u\<lparr>u_nickname := supplied v (u_nickname u)\<rparr>
                              else u) (users s)\<rparr>)"
proof -
  from truthy_bind_text [OF assms] obtain x where "bind_text v = Some x" ..
  then show ?thesis using assms by (simp add: update_nickname_def supplied_def)
qed

lemma update_password_supplied:
  assumes "truthy v"
  shows "update_password v (Some uid) s =
     Inr (s\<lparr>users := map (\<lambda>u. if u_id u = uid then u\<lparr>u_password := supplied v (u_password u)\<rparr>
                              else u) (users s)\<rparr>)"
proof -
  from truthy_bind_text [OF assms] obtain x where "bind_text v = Some x" ..
  then show ?thesis using assms by (simp add: update_password_def supplied_def)
qed

lemma not_supplied: "\<not> truthy v \<Longrightarrow> supplied v prior = prior"
  by (simp add: supplied_def)

lemma map_users_both:
  "map (\<lambda>u. if u_id u = uid then u\<lparr>u_password := g (u_password u)\<rparr> else u)
     (map (\<lambda>u. if u_id u = uid then u\<lparr>u_nickname := f (u_nickname u)\<rparr> else u) us) =
   map (\<lambda>u. if u_id u = uid
             then u\<lparr>u_nickname := f (u_nickname u), u_password := g (u_password u)\<rparr> else u) us"
  by (induction us) simp_all

lemma map_users_nickname:
  "map (\<lambda>u. if u_id u = uid then u\<lparr>u_nickname := f (u_nickname u)\<rparr> else u) us =
   map (\<lambda>u. if u_id u = uid
             then u\<lparr>u_nickname := f (u_nickname u), u_password := u_password u\<rparr> else u) us"
  by (induction us) simp_all

lemma map_users_password:
  "map (\<lambda>u. if u_id u = uid then u\<lparr>u_password := g (u_password u)\<rparr> else u) us =
   map (\<lambda>u. if u_id u = uid
             then u\<lparr>u_nickname := u_nickname u, u_password := g (u_password u)\<rparr> else u) us"
  by (induction us) simp_all

lemma map_users_neither:
  "map (\<lambda>u. if u_id u = uid
             then u\<lparr>u_nickname := u_nickname u, u_password := u_password u\<rparr> else u) us = us"
  by (induction us) simp_all

lemma update_profile_result:
  "update_profile e (req\<lparr>userId := Some uid\<rparr>) s =
     (success_response,
      s\<lparr>users := map (\<lambda>u. if u_id u = uid
           then u\<lparr>u_nickname := supplied (get_prop (body req) ''nickname'') (u_nickname u),
                  u_password := supplied (get_prop (body req) ''password'') (u_password u)\<rparr>
           else u) (users s)\<rparr>)"
proof -
  let ?n = "get_prop (body req) ''nickname''" and ?p = "get_prop (body req) ''password''"
  consider "truthy ?n" "truthy ?p" | "truthy ?n" "\<not> truthy ?p" | "\<not> truthy ?n" "truthy ?p"
    | "\<not> truthy ?n" "\<not> truthy ?p" by blast
  then show ?thesis
  proof cases
    case 1
    then show ?thesis
      by (simp add: update_profile_def Let_def update_nickname_supplied update_password_supplied
          map_users_both)
  next
    case 2
    then show ?thesis
      by (simp add: update_profile_def Let_def update_nickname_supplied not_supplied
          map_users_nickname [symmetric])
  next
    case 3
    then show ?thesis
      by (simp add: update_profile_def Let_def update_password_supplied not_supplied
          map_users_password [symmetric])
  next
    case 4
    then have "supplied ?n = (\<lambda>x. x)" and "supplied ?p = (\<lambda>x. x)"
      by (simp_all add: fun_eq_iff not_supplied)
    with 4 show ?thesis
      by (simp add: update_profile_def Let_def map_users_neither cong: if_cong)
  qed
qed


text \<open>
  Claim C9. A profile update by an authenticated caller always answers success, and
  changes nothing but the users table: there, every row of another user is as it was, and
  in the caller's row only the nickname and the password can change. Each of the two takes
  the supplied value when the body supplies one, and keeps its prior value when the field
  is omitted; the code tests \<^verbatim>\<open>if (nickname)\<close>, so null, the empty string, 0 and false
  count as omitted. A non-empty string is stored as it is. With neither field supplied the
  whole state is as before.
\<close>

theorem profile_update_frame:
  assumes "authenticated s req uid"
  shows "handle PutProfile e req s =
           (success_response,
            s\<lparr>users := map (\<lambda>u. if u_id u = uid
                 then u\<lparr>u_nickname := supplied (get_prop (body req) ''nickname'') (u_nickname u),
                        u_password := supplied (get_prop (body req) ''password'') (u_password u)\<rparr>
                 else u) (users s)\<rparr>) \<and>
         (\<forall>prior. supplied None prior = prior) \<and>
         (\<forall>v prior. v \<noteq> [] \<longrightarrow> supplied (Some (JStr v)) prior = v) \<and>
         (\<not> truthy (get_prop (body req) ''nickname'') \<and> \<not> truthy (get_prop (body req) ''password'')
            \<longrightarrow> handle PutProfile e req s = (success_response, s))"
proof -
  let ?n = "get_prop (body req) ''nickname''" and ?p = "get_prop (body req) ''password''"
  have h: "handle PutProfile e req s = update_profile e (req\<lparr>userId := Some uid\<rparr>) s"
    using assms by (simp add: handle_authenticated)
  have 1: "handle PutProfile e req s =
           (success_response,
            s\<lparr>users := map (\<lambda>u. if u_id u = uid
                 then u\<lparr>u_nickname := supplied ?n (u_nickname u),
                        u_password := supplied ?p (u_password u)\<rparr>
                 else u) (users s)\<rparr>)"
    by (simp only: h update_profile_result)
  have 2: "\<forall>prior. supplied None prior = prior" by (simp add: supplied_def)
  have 3: "\<forall>v prior. v \<noteq> [] \<longrightarrow> supplied (Some (JStr v)) prior = v"
    by (simp add: supplied_def bind_text_def)
  have 4: "\<not> truthy ?n \<and> \<not> truthy ?p \<longrightarrow> handle PutProfile e req s = (success_response, s)"
  proof
    assume a: "\<not> truthy ?n \<and> \<not> truthy ?p"
    then have "supplied ?n = (\<lambda>x. x)" and "supplied ?p = (\<lambda>x. x)"
      by (simp_all add: fun_eq_iff not_supplied)
    then show "handle PutProfile e req s = (success_response, s)"
      by (simp add: 1 map_users_neither cong: if_cong)
  qed
  from 1 2 3 4 show ?thesis by blast
qed

theorem profile_update_frame_witness:
  "authenticated state_1 (request_of (bearer token_a) [] [(''nickname'', JStr ''Ally'')]) ''u1'' \<and>
   handle PutProfile (env_at 9 0) (request_of (bearer token_a) [] [(''nickname'', JStr ''Ally'')])
     state_1 =
     (success_response,
      state_1\<lparr>users :=
        [\<lparr>u_id = ''u1'', u_username = ''alice'', u_nickname = ''Ally'', u_password = ''pw1'',
          u_created_at = ''2025-01-01 00:00:00''\<rparr>,
         \<lparr>u_id = ''u2'', u_username = ''bob'', u_nickname = ''Bob'', u_password = ''pw2'',
          u_created_at = ''2025-01-01 00:00:00''\<rparr>]\<rparr>) \<and>
   handle PutProfile (env_at 9 0) (request_of (bearer token_a) [] []) state_1 =
     (success_response, state_1)"
proof -
  let ?req = "request_of (bearer token_a) [] [(''nickname'', JStr ''Ally'')]"
  let ?none = "request_of (bearer token_a) [] []"
  have a: "authenticated state_1 ?req ''u1''" "authenticated state_1 ?none ''u1''"
    by (simp_all add: authenticated_bearer tokens_differ state_1_eq)
  have n: "get_prop (body ?req) ''nickname'' = Some (JStr ''Ally'')"
    "get_prop (body ?req) ''password'' = None"
    "\<not> truthy (get_prop (body ?none) ''nickname'') \<and> \<not> truthy (get_prop (body ?none) ''password'')"
    by (simp_all add: request_of_def get_prop_def)
  from profile_update_frame [OF a(1), of "env_at 9 0"]
  have 1: "handle PutProfile (env_at 9 0) ?req state_1 =
     (success_response,
      state_1\<lparr>users := map (\<lambda>u. if u_id u = ''u1''
           then u\<lparr>u_nickname := ''Ally'', u_password := u_password u\<rparr> else u)
         (users state_1)\<rparr>)"
    by (simp add: n supplied_def bind_text_def cong: if_cong)
  from profile_update_frame [OF a(2), of "env_at 9 0"] n(3)
  have 2: "handle PutProfile (env_at 9 0) ?none state_1 = (success_response, state_1)" by blast
  have u: "map (\<lambda>u. if u_id u = ''u1''
           then u\<lparr>u_nickname := ''Ally'', u_password := u_password u\<rparr> else u) (users state_1) =
        [\<lparr>u_id = ''u1'', u_username = ''alice'', u_nickname = ''Ally'', u_password = ''pw1'',
          u_created_at = ''2025-01-01 00:00:00''\<rparr>,
         \<lparr>u_id = ''u2'', u_username = ''bob'', u_nickname = ''Bob'', u_password = ''pw2'',
          u_created_at = ''2025-01-01 00:00:00''\<rparr>]"
    by (simp add: state_1_eq)
  from a(1) 1 2 show ?thesis by (simp only: u simp_thms)
qed

subsection \<open>The toggle\<close>

lemma unique_task_id:
  "distinct (filter (\<lambda>i. i \<noteq> None) (map t_id ts)) \<Longrightarrow> x \<in> set ts \<Longrightarrow> y \<in> set ts \<Longrightarrow>
     t_id x = Some tid \<Longrightarrow> t_id y = Some tid \<Longrightarrow> x = y"
proof (induction ts)
  case Nil
  then show ?case by simp
next
  case (Cons a ts)
  show ?case
  proof (cases "t_id a = Some tid")
    case False
    with Cons.prems have "x \<in> set ts" "y \<in> set ts" by auto
    moreover from Cons.prems(1) have "distinct (filter (\<lambda>i. i \<noteq> None) (map t_id ts))"
      by (simp split: if_splits)
    ultimately show ?thesis using Cons.prems(4,5) by (intro Cons.IH)
  next
    case True
    with Cons.prems(1) have "Some tid \<notin> set (map t_id ts)" by simp
    then have "\<And>z. z \<in> set ts \<Longrightarrow> t_id z \<noteq> Some tid" by force
    with Cons.prems(2,3,4,5) show ?thesis by auto
  qed
qed


















subsection \<open>The export of \<^verbatim>\<open>server.js\<close>\<close>

lemma export_data_result:
  "export_data e (req\<lparr>userId := Some uid\<rparr>) s =
     (json_response (Document
        [(''projects'', FArray (map (\<lambda>p. EObject (project_json p))
            (filter (\<lambda>p. p_user_id p = uid) (projects s)))),
         (''tasks'', FArray (map (\<lambda>t. EObject (task_json t)) (tasks_of_user uid s)))]), s)"
  by (simp add: export_data_def tasks_of_user_def)

text \<open>
  Claim C5, as amended. For every authenticated caller, the export of \<^verbatim>\<open>server.js\<close>
  answers 200 with one JSON document of exactly two fields, \<open>projects\<close> and \<open>tasks\<close>:
  the rows of all of the caller's projects and of all of the caller's tasks, in table
  order, and of no other user. The document has no timestamp field, and the state is
  unchanged.
\<close>

theorem export_contents:
  assumes "authenticated s req uid"
  shows "handle GetExport e req s =
           (json_response (Document
              [(''projects'', FArray (map (\<lambda>p. EObject (project_json p))
                  (filter (\<lambda>p. p_user_id p = uid) (projects s)))),
               (''tasks'', FArray (map (\<lambda>t. EObject (task_json t)) (tasks_of_user uid s)))]), s) \<and>
         response_fields (fst (handle GetExport e req s)) = [''projects'', ''tasks'']"
proof -
  have "handle GetExport e req s = export_data e (req\<lparr>userId := Some uid\<rparr>) s"
    using assms by (simp add: handle_authenticated)
  then show ?thesis by (simp add: export_data_result json_response_def)
qed

theorem export_contents_witness:
  "authenticated state_1 (request_of (bearer token_b) [] []) ''u2'' \<and>
   rbody (fst (handle GetExport (env_at 9 0) (request_of (bearer token_b) [] []) state_1)) =
     Document
       [(''projects'', FArray [EObject [(''id'', JStr ''p6''), (''user_id'', JStr ''u2''),
           (''name'', JStr ''Work''), (''created_at'', JStr ''2025-01-01 00:00:00'')]]),
        (''tasks'', FArray [EObject [(''id'', JStr ''t1''), (''user_id'', JStr ''u2''),
           (''project_id'', JStr ''p6''), (''name'', JStr ''Report''),
           (''description'', JStr []), (''priority'', JNull),
           (''deadline'', JStr ''2025-12-31''), (''completed'', JNum 0),
           (''created_at'', JStr ''2025-01-01 00:00:00'')]])]"
proof -
  have a: "authenticated state_1 (request_of (bearer token_b) [] []) ''u2''"
    by (simp add: authenticated_bearer tokens_differ state_1_eq)
  from export_contents [OF a, of "env_at 9 0"] a show ?thesis
    by (simp add: json_response_def tasks_of_user_def state_1_eq project_json_def task_json_def)
qed

text \<open>
  Claim C5 as stated fails: the document that the export of \<^verbatim>\<open>server.js\<close> gives an
  authenticated caller has no field \<open>exportedAt\<close> (only the server without sessions adds
  one).
\<close>

theorem export_timestamp_counterexample:
  "''exportedAt'' \<notin> set (response_fields
      (fst (handle GetExport (env_at 9 0) (request_of (bearer token_b) [] []) state_1))) \<and>
   status (fst (handle GetExport (env_at 9 0) (request_of (bearer token_b) [] []) state_1)) = 200"
proof -
  have a: "authenticated state_1 (request_of (bearer token_b) [] []) ''u2''"
    by (simp add: authenticated_bearer tokens_differ state_1_eq)
  then have "handle GetExport (env_at 9 0) (request_of (bearer token_b) [] []) state_1 =
      export_data (env_at 9 0) ((request_of (bearer token_b) [] [])\<lparr>userId := Some ''u2''\<rparr>) state_1"
    by (simp add: handle_authenticated)
  then show ?thesis by (simp add: export_data_result json_response_def)
qed

subsection \<open>The task update and the invariant of the data model\<close>

lemma move_task_authenticated: "authenticated state_1 move_task_request ''u2''"
  by (simp add: move_task_request_def authenticated_bearer tokens_differ state_1_eq)

lemma move_task_result:
  "handle PutTask (env_at 8 0) move_task_request state_1 =
     (json_response (Value (FObject
        [(''id'', JStr ''t1''), (''project_id'', JStr ''p5''), (''name'', JStr ''Report''),
         (''deadline'', JStr ''2025-12-31''), (''completed'', JNum 0)])),
      state_1\<lparr>tasks :=
        [\<lparr>t_id = Some ''t1'', t_user_id = ''u2'', t_project_id = ''p5'', t_name = ''Report'',
          t_description = None, t_priority = None, t_deadline = SText ''2025-12-31'',
          t_completed = SInt 0, t_created_at = ''2025-01-01 00:00:00''\<rparr>]\<rparr>)"
  by (subst handle_authenticated [OF _ move_task_authenticated])
     (simp_all add: move_task_request_def request_of_userId update_task_def select_task_def
      update_task_row_def get_prop_def bind_text_def json_object_def List.map_filter_simps
      state_1_eq Let_def)

lemma state_2_eq:
  "state_2 = state_1\<lparr>tasks :=
        [\<lparr>t_id = Some ''t1'', t_user_id = ''u2'', t_project_id = ''p5'', t_name = ''Report'',
          t_description = None, t_priority = None, t_deadline = SText ''2025-12-31'',
          t_completed = SInt 0, t_created_at = ''2025-01-01 00:00:00''\<rparr>]\<rparr>"
  by (simp add: state_2_def move_task_result)

lemma reachable_state_2: "reachable state_2"
  unfolding state_2_def
  by (rule reachable_step [OF reachable_state_1]) (simp add: env_at_def)

text \<open>
  Claim C1 fails on the code. In the run above the state before the update keeps the
  invariant; the second user, authenticated, updates the own task \<open>t1\<close> with
  \<open>project_id\<close> set to \<open>p5\<close>, a project of the first user; the update answers 200, and
  in the state it leaves, which is reachable, the task of user \<open>u2\<close> is in a project of
  user \<open>u1\<close>: the invariant is broken.
\<close>

theorem task_update_breaks_ownership:
  "task_project_owned state_1 \<and>
   authenticated state_1 move_task_request ''u2'' \<and>
   select_task ''t1'' (Some ''u2'') state_1 \<noteq> None \<and>
   status (fst (handle PutTask (env_at 8 0) move_task_request state_1)) = 200 \<and>
   snd (handle PutTask (env_at 8 0) move_task_request state_1) = state_2 \<and>
   reachable state_2 \<and>
   map (\<lambda>t. (t_id t, t_user_id t, t_project_id t)) (tasks state_2) = [(Some ''t1'', ''u2'', ''p5'')] \<and>
   map (\<lambda>p. (p_id p, p_user_id p)) (projects state_2) = [(''p5'', ''u1''), (''p6'', ''u2'')] \<and>
   \<not> task_project_owned state_2"
proof -
  have 1: "task_project_owned state_1" by (simp add: task_project_owned_def state_1_eq)
  have 2: "select_task ''t1'' (Some ''u2'') state_1 \<noteq> None"
    by (simp add: select_task_def state_1_eq)
  have 3: "status (fst (handle PutTask (env_at 8 0) move_task_request state_1)) = 200"
    by (simp add: move_task_result json_response_def)
  have 4: "snd (handle PutTask (env_at 8 0) move_task_request state_1) = state_2"
    by (simp add: state_2_def)
  have 5: "map (\<lambda>t. (t_id t, t_user_id t, t_project_id t)) (tasks state_2) =
      [(Some ''t1'', ''u2'', ''p5'')]" by (simp add: state_2_eq)
  have 6: "map (\<lambda>p. (p_id p, p_user_id p)) (projects state_2) = [(''p5'', ''u1''), (''p6'', ''u2'')]"
    by (simp add: state_2_eq state_1_eq)
  have 7: "\<not> task_project_owned state_2"
    by (simp add: task_project_owned_def state_2_eq state_1_eq)
  from 1 move_task_authenticated 2 3 4 reachable_state_2 5 6 7 show ?thesis by blast
qed

subsection \<open>The project delete after a foreign task moved in\<close>

lemma delete_request_authenticated:
  "authenticated state_2 (request_of (bearer token_a) ''p5'' []) ''u1''"
  by (simp add: authenticated_bearer tokens_differ state_2_eq state_1_eq)

lemma delete_project_result:
  "handle DeleteProject (env_at 9 0) (request_of (bearer token_a) ''p5'' []) state_2 =
     (success_response,
      state_2\<lparr>tasks := [],
        projects := [\<lparr>p_id = ''p6'', p_user_id = ''u2'', p_name = ''Work'',
          p_created_at = ''2025-01-01 00:00:00''\<rparr>]\<rparr>)"
  by (subst handle_authenticated [OF _ delete_request_authenticated])
     (simp_all add: request_of_userId delete_project_def select_project_def
      delete_project_row_def delete_tasks_of_project_def state_2_eq state_1_eq)

text \<open>
  Claim C3 fails on the code in a reachable state. After the update of claim C1 the
  project \<open>p5\<close> of user \<open>u1\<close> holds exactly one task, which belongs to user \<open>u2\<close>.
  The owner deletes \<open>p5\<close>: the answer is 200, the project and its task are gone, the
  owner's task count was 0 and is 0 (it does not decrease by 1), and the task count of
  user \<open>u2\<close> drops from 1 to 0.
\<close>

theorem project_delete_counts:
  "reachable state_2 \<and>
   authenticated state_2 (request_of (bearer token_a) ''p5'' []) ''u1'' \<and>
   list_ex (\<lambda>p. p_id p = ''p5'' \<and> p_user_id p = ''u1'') (projects state_2) \<and>
   length (tasks_in_project ''p5'' state_2) = 1 \<and>
   status (fst (handle DeleteProject (env_at 9 0) (request_of (bearer token_a) ''p5'' []) state_2))
     = 200 \<and>
   length (tasks_of_user ''u1'' state_2) = 0 \<and>
   length (tasks_of_user ''u1''
     (snd (handle DeleteProject (env_at 9 0) (request_of (bearer token_a) ''p5'' []) state_2))) = 0 \<and>
   length (tasks_of_user ''u2'' state_2) = 1 \<and>
   length (tasks_of_user ''u2''
     (snd (handle DeleteProject (env_at 9 0) (request_of (bearer token_a) ''p5'' []) state_2))) = 0"
proof -
  have 1: "list_ex (\<lambda>p. p_id p = ''p5'' \<and> p_user_id p = ''u1'') (projects state_2)"
    by (simp add: state_2_eq state_1_eq)
  have 2: "length (tasks_in_project ''p5'' state_2) = 1"
    "length (tasks_of_user ''u1'' state_2) = 0" "length (tasks_of_user ''u2'' state_2) = 1"
    by (simp_all add: tasks_in_project_def tasks_of_user_def state_2_eq)
  have 3: "status (fst (handle DeleteProject (env_at 9 0)
      (request_of (bearer token_a) ''p5'' []) state_2)) = 200"
    by (simp add: delete_project_result success_response_def json_response_def)
  have 4: "length (tasks_of_user ''u1''
     (snd (handle DeleteProject (env_at 9 0) (request_of (bearer token_a) ''p5'' []) state_2))) = 0"
    "length (tasks_of_user ''u2''
     (snd (handle DeleteProject (env_at 9 0) (request_of (bearer token_a) ''p5'' []) state_2))) = 0"
    by (simp_all add: delete_project_result tasks_of_user_def)
  from reachable_state_2 delete_request_authenticated 1 2 3 4 show ?thesis by blast
qed

subsection \<open>Export and import in the server without sessions\<close>

























subsection \<open>The invariant of the data model on the other routes\<close>

lemma owned_tables:
  "projects s' = projects s \<Longrightarrow> tasks s' = tasks s \<Longrightarrow> task_project_owned s \<Longrightarrow>
     task_project_owned s'"
  by (simp add: task_project_owned_def)

lemma insert_user_owned:
  "insert_user uid un nn pw ts s = Inr s' \<Longrightarrow> task_project_owned s \<Longrightarrow> task_project_owned s'"
  using insert_user_tables owned_tables by blast

lemma insert_project_owned:
  assumes "insert_project pid uid name ts s = Inr s'" and "task_project_owned s"
  shows "task_project_owned s'"
proof -
  from assms(1) obtain row where "projects s' = projects s @ [row]" "tasks s' = tasks s"
    by (auto simp: insert_project_def split: option.splits if_splits)
  with assms(2) show ?thesis
    by (auto simp: task_project_owned_def list_all_iff list_ex_iff)
qed

lemma delete_project_owned:
  assumes "task_project_owned s"
  shows "task_project_owned (delete_project_row pid (delete_tasks_of_project pid s))"
proof -
  have "list_ex (\<lambda>p. p_id p = t_project_id t \<and> p_user_id p = t_user_id t)
      (filter (\<lambda>p. p_id p \<noteq> pid) (projects s))"
    if "t \<in> set (tasks s)" "t_project_id t \<noteq> pid" for t
  proof -
    from assms that(1) obtain p where "p \<in> set (projects s)" "p_id p = t_project_id t"
      "p_user_id p = t_user_id t"
      by (auto simp: task_project_owned_def list_all_iff list_ex_iff)
    with that(2) show ?thesis by (auto simp: list_ex_iff)
  qed
  then show ?thesis
    by (simp add: task_project_owned_def delete_project_row_def delete_tasks_of_project_def
        list_all_iff)
qed

lemma update_project_name_owned:
  assumes "update_project_name name pid s = Inr s'" and "task_project_owned s"
  shows "task_project_owned s'"
proof -
  from assms(1) have "s' = s \<or> (\<exists>n. s' = s\<lparr>projects :=
      map (\<lambda>p. if p_id p = pid then p\<lparr>p_name := n\<rparr> else p) (projects s)\<rparr>)"
    by (auto simp: update_project_name_def split: option.splits if_splits)
  then show ?thesis
  proof
    assume "s' = s" with assms(2) show ?thesis by simp
  next
    assume "\<exists>n. s' = s\<lparr>projects :=
      map (\<lambda>p. if p_id p = pid then p\<lparr>p_name := n\<rparr> else p) (projects s)\<rparr>"
    then obtain n where s': "s' = s\<lparr>projects :=
      map (\<lambda>p. if p_id p = pid then p\<lparr>p_name := n\<rparr> else p) (projects s)\<rparr>" ..
    have "list_ex (\<lambda>p. p_id p = i \<and> p_user_id p = u)
        (map (\<lambda>p. if p_id p = pid then p\<lparr>p_name := n\<rparr> else p) ps)"
      if "list_ex (\<lambda>p. p_id p = i \<and> p_user_id p = u) ps" for i u ps
      using that by (induction ps) auto
    with assms(2) show ?thesis
      unfolding s' task_project_owned_def list_all_iff by auto
  qed
qed

lemma insert_task_owned:
  assumes "insert_task tid (Some uid) project_id name d pr dl ts s = Inr s'"
    and "select_project (bind_text project_id) (Some uid) s \<noteq> None"
    and "task_project_owned s"
  shows "task_project_owned s'"
proof -
  from assms(1) obtain pid row where row: "bind_text project_id = Some pid"
      "tasks s' = tasks s @ [row]" "projects s' = projects s"
      "t_user_id row = uid" "t_project_id row = pid"
    by (auto simp: insert_task_def split: option.splits if_splits)
  from assms(2) row(1) have "list_ex (\<lambda>p. Some (p_id p) = Some pid \<and> p_user_id p = uid) (projects s)"
    using select_project_Some_owned by metis
  then have "list_ex (\<lambda>p. p_id p = t_project_id row \<and> p_user_id p = t_user_id row) (projects s)"
    by (simp add: row(4,5))
  with assms(3) show ?thesis
    by (simp add: task_project_owned_def row(2,3))
qed

lemma update_task_row_owned:
  assumes "update_task_row name d pr dl c project_id tid s = Inr s'"
    and "select_task tid (Some uid) s \<noteq> None"
    and "select_project (bind_text project_id) (Some uid) s \<noteq> None"
    and "store_ok s" and "task_project_owned s"
  shows "task_project_owned s'"
proof -
  from assms(2) obtain task where "select_task tid (Some uid) s = Some task" by blast
  then have task: "task \<in> set (tasks s)" "t_id task = Some tid" "t_user_id task = uid"
    by (auto simp: select_task_def dest: find_Some_list_ex)
  from assms(4) have d: "distinct (filter (\<lambda>i. i \<noteq> None) (map t_id (tasks s)))"
    by (simp add: store_ok_def)
  have same: "t = task" if "t \<in> set (tasks s)" "t_id t = Some tid" for t
    using d that(1) task(1) that(2) task(2) by (rule unique_task_id)
  from task(1) task(2) have "list_ex (\<lambda>t. t_id t = Some tid) (tasks s)"
    by (auto simp: list_ex_iff)
  with assms(1) obtain pid n where s': "bind_text project_id = Some pid"
    "s' = s\<lparr>tasks := map (\<lambda>t. if t_id t = Some tid
               then t\<lparr>t_name := n, t_description := bind_text d,
                      t_priority := bind_text pr, t_deadline := bind_param dl,
                      t_completed := SInt c, t_project_id := pid\<rparr>
               else t) (tasks s)\<rparr>"
    by (auto simp: update_task_row_def split: option.splits if_splits)
  from assms(3) s'(1) have own: "list_ex (\<lambda>p. p_id p = pid \<and> p_user_id p = uid) (projects s)"
    using select_project_Some_owned [of "Some pid" uid s] by simp
  have "list_ex (\<lambda>p. p_id p = t_project_id t' \<and> p_user_id p = t_user_id t') (projects s)"
    if "t' \<in> set (tasks s')" for t'
  proof -
    from that s'(2) obtain t where t: "t \<in> set (tasks s)"
      "t' = (if t_id t = Some tid
               then t\<lparr>t_name := n, t_description := bind_text d,
                      t_priority := bind_text pr, t_deadline := bind_param dl,
                      t_completed := SInt c, t_project_id := pid\<rparr>
               else t)" by auto
    show ?thesis
    proof (cases "t_id t = Some tid")
      case True
      with same [OF t(1)] have "t = task" by simp
      with True t(2) task(3) own show ?thesis by simp
    next
      case False
      with t(2) have "t' = t" by simp
      with assms(5) t(1) show ?thesis by (simp add: task_project_owned_def list_all_iff)
    qed
  qed
  then show ?thesis by (simp add: task_project_owned_def list_all_iff s'(2))
qed

lemma set_completed_owned:
  "task_project_owned s \<Longrightarrow> task_project_owned (set_completed c tid s)"
  by (auto simp: task_project_owned_def set_completed_def list_all_iff)

lemma delete_task_row_owned:
  "task_project_owned s \<Longrightarrow> task_project_owned (delete_task_row tid s)"
  by (auto simp: task_project_owned_def delete_task_row_def list_all_iff)

lemma insert_task_user: "insert_task tid uid pid name d pr dl ts s = Inr s' \<Longrightarrow> \<exists>u. uid = Some u"
  by (cases uid) (simp_all add: insert_task_def)

lemma select_task_user: "select_task tid uid s \<noteq> None \<Longrightarrow> \<exists>u. uid = Some u"
  by (cases uid) (simp_all add: select_task_def find_None_list_ex list_ex_iff)

lemma update_task_owned_project:
  assumes "store_ok s" and "task_project_owned s"
    and "select_project (bind_text (get_prop (body req) ''project_id'')) (userId req) s \<noteq> None"
  shows "task_project_owned (snd (update_task e req s))"
proof -
  from update_task_outcome [of e req s] show ?thesis
  proof
    assume "snd (update_task e req s) = s"
    with assms(2) show ?thesis by simp
  next
    assume a: "select_task (param_id req) (userId req) s \<noteq> None \<and>
      update_task_row (get_prop (body req) ''name'') (get_prop (body req) ''description'')
        (get_prop (body req) ''priority'') (get_prop (body req) ''deadline'')
        (if truthy (get_prop (body req) ''completed'') then 1 else 0)
        (get_prop (body req) ''project_id'') (param_id req) s = Inr (snd (update_task e req s))"
    then obtain u where u: "userId req = Some u" using select_task_user by blast
    from a have sel: "select_task (param_id req) (Some u) s \<noteq> None" by (simp add: u)
    from assms(3) have prj:
      "select_project (bind_text (get_prop (body req) ''project_id'')) (Some u) s \<noteq> None"
      by (simp add: u)
    from a have "update_task_row (get_prop (body req) ''name'') (get_prop (body req) ''description'')
        (get_prop (body req) ''priority'') (get_prop (body req) ''deadline'')
        (if truthy (get_prop (body req) ''completed'') then 1 else 0)
        (get_prop (body req) ''project_id'') (param_id req) s = Inr (snd (update_task e req s))"
      by (rule conjunct2)
    from this sel prj assms(1,2) show ?thesis by (rule update_task_row_owned)
  qed
qed

lemma handler_owned:
  assumes "store_ok s" and "task_project_owned s" and "r \<noteq> PutTask"
  shows "task_project_owned (snd (handler r e req s))"
proof (cases r)
  case PostRegister
  then show ?thesis
    using assms(2) register_tables [of e req s] owned_tables [of "snd (register e req s)" s]
    by simp
next
  case PostLogin
  then show ?thesis
    using assms(2) login_tables [of e req s] owned_tables [of "snd (login e req s)" s]
    by simp
next
  case PostLogout
  then show ?thesis
    using assms(2) logout_tables [of e req s] owned_tables [of "snd (logout e req s)" s]
    by simp
next
  case GetMe
  then show ?thesis using assms(2) by (simp add: read_only)
next
  case PutProfile
  then show ?thesis
    using assms(2) update_profile_tables [of e req s]
      owned_tables [of "snd (update_profile e req s)" s]
    by simp
next
  case GetProjects
  then show ?thesis using assms(2) by (simp add: read_only)
next
  case PostProject
  have "task_project_owned (snd (create_project e req s))"
    using create_project_outcome [of e req s]
  proof
    assume "snd (create_project e req s) = s"
    with assms(2) show ?thesis by simp
  next
    assume a: "insert_project (''p'' @ string_of_nat (now e)) (userId req) (get_prop (body req) ''name'')
     (current_timestamp e) s = Inr (snd (create_project e req s))"
    from a assms(2) show ?thesis by (rule insert_project_owned)
  qed
  with PostProject show ?thesis by simp
next
  case DeleteProject
  have "task_project_owned (snd (delete_project e req s))"
    using delete_project_outcome [of e req s]
  proof
    assume "snd (delete_project e req s) = s"
    with assms(2) show ?thesis by simp
  next
    assume a: "select_project (Some (param_id req)) (userId req) s \<noteq> None \<and>
    snd (delete_project e req s) =
      delete_project_row (param_id req) (delete_tasks_of_project (param_id req) s)"
    then show ?thesis using delete_project_owned [OF assms(2), of "param_id req"] by simp
  qed
  with DeleteProject show ?thesis by simp
next
  case PutProject
  have "task_project_owned (snd (update_project e req s))"
    using update_project_outcome [of e req s]
  proof
    assume "snd (update_project e req s) = s"
    with assms(2) show ?thesis by simp
  next
    assume a: "update_project_name (get_prop (body req) ''name'') (param_id req) s =
     Inr (snd (update_project e req s))"
    from a assms(2) show ?thesis by (rule update_project_name_owned)
  qed
  with PutProject show ?thesis by simp
next
  case GetTasks
  then show ?thesis using assms(2) by (simp add: read_only)
next
  case PostTask
  have "task_project_owned (snd (create_task e req s))"
  proof -
    from create_task_outcome [of e req s] show ?thesis
    proof
      assume "snd (create_task e req s) = s"
      with assms(2) show ?thesis by simp
    next
      assume a: "select_project (bind_text (get_prop (body req) ''project_id'')) (userId req) s
          \<noteq> None \<and>
        insert_task (get_prop (body req) ''id'') (userId req) (get_prop (body req) ''project_id'')
          (get_prop (body req) ''name'')
          (if truthy (get_prop (body req) ''description'') then get_prop (body req) ''description''
           else Some (JStr []))
          (get_prop (body req) ''priority'') (get_prop (body req) ''deadline'')
          (current_timestamp e) s = Inr (snd (create_task e req s))"
      then obtain u where u: "userId req = Some u" using insert_task_user by blast
      from a have prj:
        "select_project (bind_text (get_prop (body req) ''project_id'')) (Some u) s \<noteq> None"
        by (simp add: u)
      from a have "insert_task (get_prop (body req) ''id'') (Some u)
          (get_prop (body req) ''project_id'') (get_prop (body req) ''name'')
          (if truthy (get_prop (body req) ''description'') then get_prop (body req) ''description''
           else Some (JStr []))
          (get_prop (body req) ''priority'') (get_prop (body req) ''deadline'')
          (current_timestamp e) s = Inr (snd (create_task e req s))"
        by (simp add: u)
      from this prj assms(2) show ?thesis by (rule insert_task_owned)
    qed
  qed
  with PostTask show ?thesis by simp
next
  case PutTask
  with assms(3) show ?thesis by simp
next
  case PatchToggle
  have "task_project_owned (snd (toggle_task e req s))"
    using toggle_task_outcome [of e req s] set_completed_owned [OF assms(2), of 0 "param_id req"]
      set_completed_owned [OF assms(2), of 1 "param_id req"] assms(2)
    by auto
  with PatchToggle show ?thesis by simp
next
  case DeleteTask
  have "task_project_owned (snd (delete_task e req s))"
    using delete_task_outcome [of e req s]
  proof
    assume "snd (delete_task e req s) = s"
    with assms(2) show ?thesis by simp
  next
    assume a: "snd (delete_task e req s) = delete_task_row (param_id req) s"
    then show ?thesis using delete_task_row_owned [OF assms(2), of "param_id req"] by simp
  qed
  with DeleteTask show ?thesis by simp
next
  case GetExport
  then show ?thesis using assms(2) by (simp add: read_only)
qed

text \<open>
  Every route but the task update keeps the invariant of the data model, and the task
  update keeps it when the project it names is one of the caller's: the check that the
  task creation makes and the update leaves out.
\<close>

lemma handle_owned:
  assumes "store_ok s" and "task_project_owned s" and "r \<noteq> PutTask"
  shows "task_project_owned (snd (handle r e req s))"
  using assms(2) by (rule handle_preserves) (rule handler_owned [OF assms])

lemma handle_update_task_owned:
  assumes "store_ok s" and "task_project_owned s" and "authenticated s req uid"
    and "select_project (bind_text (get_prop (body req) ''project_id'')) (Some uid) s \<noteq> None"
  shows "task_project_owned (snd (handle PutTask e req s))"
proof -
  have "handle PutTask e req s = update_task e (req\<lparr>userId := Some uid\<rparr>) s"
    using assms(3) by (simp add: handle_authenticated)
  moreover have "task_project_owned (snd (update_task e (req\<lparr>userId := Some uid\<rparr>) s))"
    using assms(1,2,4) by (intro update_task_owned_project) simp_all
  ultimately show ?thesis by simp
qed

lemma delete_project_owned_result:
  assumes "authenticated s req uid"
    and "list_ex (\<lambda>p. p_id p = param_id req \<and> p_user_id p = uid) (projects s)"
  shows "handle DeleteProject e req s =
           (success_response,
            s\<lparr>tasks := filter (\<lambda>t. t_project_id t \<noteq> param_id req) (tasks s),
              projects := filter (\<lambda>p. p_id p \<noteq> param_id req) (projects s)\<rparr>)"
proof -
  let ?req = "req\<lparr>userId := Some uid\<rparr>"
  from assms(2) have "select_project (Some (param_id req)) (Some uid) s \<noteq> None"
    by (simp add: select_project_None)
  then obtain p where "select_project (Some (param_id ?req)) (userId ?req) s = Some p" by auto
  then have "delete_project e ?req s =
      (success_response, delete_project_row (param_id req) (delete_tasks_of_project (param_id req) s))"
    by (simp add: delete_project_def)
  moreover have "handle DeleteProject e req s = delete_project e ?req s"
    using assms(1) by (simp add: handle_authenticated)
  ultimately show ?thesis
    by (simp add: delete_project_row_def delete_tasks_of_project_def)
qed

lemma length_filter_split:
  "(\<And>x. x \<in> set xs \<Longrightarrow> Q x \<Longrightarrow> P x) \<Longrightarrow>
     length (filter P xs) = length (filter P (filter (\<lambda>x. \<not> Q x) xs)) + length (filter Q xs)"
  by (induction xs) auto

text \<open>
  The cascade of a project delete, for every state: the project row and the tasks of
  the project go, every other row stays. Where the invariant of the data model holds, the
  tasks of the project are the owner's, and the owner's task count drops by their number.
\<close>

lemma delete_project_cascade:
  assumes "authenticated s req uid"
    and "list_ex (\<lambda>p. p_id p = param_id req \<and> p_user_id p = uid) (projects s)"
  shows "projects (snd (handle DeleteProject e req s)) =
           filter (\<lambda>p. p_id p \<noteq> param_id req) (projects s)"
    and "tasks (snd (handle DeleteProject e req s)) =
           filter (\<lambda>t. t_project_id t \<noteq> param_id req) (tasks s)"
    and "users (snd (handle DeleteProject e req s)) = users s"
    and "length (tasks s) =
           length (tasks (snd (handle DeleteProject e req s))) +
           length (tasks_in_project (param_id req) s)"
proof -
  note r = delete_project_owned_result [OF assms, of e]
  show "projects (snd (handle DeleteProject e req s)) =
           filter (\<lambda>p. p_id p \<noteq> param_id req) (projects s)"
    and "tasks (snd (handle DeleteProject e req s)) =
           filter (\<lambda>t. t_project_id t \<noteq> param_id req) (tasks s)"
    and "users (snd (handle DeleteProject e req s)) = users s"
    by (simp_all add: r)
  have "length (tasks s) = length (filter (\<lambda>t. t_project_id t \<noteq> param_id req) (tasks s)) +
      length (filter (\<lambda>t. t_project_id t = param_id req) (tasks s))"
    using sum_length_filter_compl [of "\<lambda>t. t_project_id t = param_id req" "tasks s"] by simp
  then show "length (tasks s) =
           length (tasks (snd (handle DeleteProject e req s))) +
           length (tasks_in_project (param_id req) s)"
    by (simp add: r tasks_in_project_def)
qed

lemma delete_project_owner_count:
  assumes "store_ok s" and "task_project_owned s" and "authenticated s req uid"
    and "list_ex (\<lambda>p. p_id p = param_id req \<and> p_user_id p = uid) (projects s)"
  shows "length (tasks_of_user uid s) =
           length (tasks_of_user uid (snd (handle DeleteProject e req s))) +
           length (tasks_in_project (param_id req) s)"
proof -
  from assms(4) obtain p where p: "p \<in> set (projects s)" "p_id p = param_id req" "p_user_id p = uid"
    by (auto simp: list_ex_iff)
  from assms(1) have d: "distinct (map p_id (projects s))" by (simp add: store_ok_def)
  have own: "t_user_id t = uid" if "t \<in> set (tasks s)" "t_project_id t = param_id req" for t
  proof -
    from assms(2) that(1) obtain q where q: "q \<in> set (projects s)" "p_id q = t_project_id t"
      "p_user_id q = t_user_id t"
      by (auto simp: task_project_owned_def list_all_iff list_ex_iff)
    from q(2) that(2) p(2) have "p_id q = p_id p" by simp
    with d q(1) p(1) have "q = p" by (metis unique_key)
    with q(3) p(3) show ?thesis by simp
  qed
  have "length (filter (\<lambda>t. t_user_id t = uid) (tasks s)) =
      length (filter (\<lambda>t. t_user_id t = uid)
        (filter (\<lambda>t. \<not> t_project_id t = param_id req) (tasks s))) +
      length (filter (\<lambda>t. t_project_id t = param_id req) (tasks s))"
    by (rule length_filter_split) (rule own)
  then show ?thesis
    by (simp add: tasks_of_user_def tasks_in_project_def delete_project_cascade(2) [OF assms(3,4)])
qed

end
